theory Spec2Isabelle
  imports Complex_Main "HOL-Library.Multiset"
begin

section \<open>Values, errors and effects of \<^verbatim>\<open>main.py\<close>\<close>

text \<open>
  \<^verbatim>\<open>main.py\<close> drives a pipeline of collaborators (preprocessors, model, trainer,
  evaluators, logger). A Python exception is a value of \<open>error\<close>; a call that may read
  files, draw random numbers, write a log or raise is a function from the state of the
  world \<open>'w\<close> to either an error or a result with the next state.
\<close>

datatype error =
  ConfigError | DataError | TrainingError | ValueError | ZeroDivisionError | OtherError string

type_synonym ('a, 'w) prog = "'w \<Rightarrow> error + ('a \<times> 'w)"

definition return :: "'a \<Rightarrow> ('a, 'w) prog" where
  "return x w = Inr (x, w)"

definition bind :: "('a, 'w) prog \<Rightarrow> ('a \<Rightarrow> ('b, 'w) prog) \<Rightarrow> ('b, 'w) prog" where
  "bind m f w = (case m w of Inl e \<Rightarrow> Inl e | Inr (x, w') \<Rightarrow> f x w')"

definition lift :: "error + 'a \<Rightarrow> ('a, 'w) prog" where
  "lift r w = (case r of Inl e \<Rightarrow> Inl e | Inr x \<Rightarrow> Inr (x, w))"

type_synonym matrix = "real list list"
type_synonym adjacency = "int list list"

subsection \<open>The edge index: \<^verbatim>\<open>np.array(np.where(adj_matrix == 1))\<close>\<close>

text \<open>
  \<^verbatim>\<open>np.where\<close> on a two-dimensional condition walks the array in row-major order and
  returns the row indices and the column indices of the true entries as two parallel
  arrays; \<^verbatim>\<open>np.array\<close> stacks them into the \<open>2 \<times> E\<close> edge index.
\<close>

fun where_row :: "nat \<Rightarrow> nat \<Rightarrow> int list \<Rightarrow> (nat \<times> nat) list" where
  "where_row i j [] = []"
| "where_row i j (x # xs) = (if x = 1 then (i, j) # where_row i (Suc j) xs
                             else where_row i (Suc j) xs)"

fun where_rows :: "nat \<Rightarrow> adjacency \<Rightarrow> (nat \<times> nat) list" where
  "where_rows i [] = []"
| "where_rows i (r # rs) = where_row i 0 r @ where_rows (Suc i) rs"

definition np_where_eq1 :: "adjacency \<Rightarrow> nat list \<times> nat list" where
  "np_where_eq1 a = (map fst (where_rows 0 a), map snd (where_rows 0 a))"

text \<open>Column \<open>k\<close> of the edge index is the pair (source, target) of edge \<open>k\<close>.\<close>

definition edge_pairs :: "nat list \<times> nat list \<Rightarrow> (nat \<times> nat) list" where
  "edge_pairs ei = zip (fst ei) (snd ei)"

text \<open>All positions of a matrix in row-major order.\<close>

definition positions :: "'a list list \<Rightarrow> (nat \<times> nat) list" where
  "positions a = concat (map (\<lambda>i. map (Pair i) [0..<length (a ! i)]) [0..<length a])"

subsection \<open>The final accuracy: lines 169 to 172\<close>

text \<open>\<^verbatim>\<open>.flatten()\<close> lays a matrix out row after row.\<close>

definition flatten :: "'a list list \<Rightarrow> 'a list" where
  "flatten a = concat a"

text \<open>\<^verbatim>\<open>(pred_flat > 0.5).astype(int)\<close>\<close>

definition binarize :: "real \<Rightarrow> int" where
  "binarize p = (if p > 0.5 then 1 else 0)"

text \<open>
  \<^verbatim>\<open>sklearn.metrics.accuracy_score(y_true, y_pred)\<close>: the fraction of positions at
  which the two label sequences agree. Sequences of different lengths are rejected; an
  empty sequence has no such fraction and is rejected here as well.
\<close>

definition accuracy_score :: "int list \<Rightarrow> int list \<Rightarrow> error + real" where
  "accuracy_score y_true y_pred =
     (if length y_true \<noteq> length y_pred \<or> y_true = [] then Inl ValueError
      else Inr (real (length (filter (\<lambda>(t, p). t = p) (zip y_true y_pred)))
                / real (length y_true)))"

definition final_accuracy :: "adjacency \<Rightarrow> matrix \<Rightarrow> error + real" where
  "final_accuracy true_adj_matrix reconstructed_adjacency =
     (let true_flat = flatten true_adj_matrix;
          pred_flat = flatten reconstructed_adjacency
      in accuracy_score true_flat (map binarize pred_flat))"


section \<open>The pipeline of \<^verbatim>\<open>main.py\<close>\<close>

subsection \<open>Global variables (lines 25 to 50)\<close>

text \<open>
  The module globals read from \<^verbatim>\<open>config.json\<close>, under the names the module gives
  them. \<^verbatim>\<open>dropout\<close> and \<^verbatim>\<open>k_fraction\<close> are optional keys
  (\<^verbatim>\<open>config.get\<close>) with defaults 0.2 and 0.1.
\<close>

record globals =
  run_id :: string
  RUN_INFO_PATH :: string
  EPOCH_INFO_PATH :: string
  EXPR_FILE :: string
  NETWORK_FILE :: string
  DATASET :: string
  NUM_NEURONS :: int
  EMBEDDING_SIZE :: int
  NUM_HEADS :: int
  LEARNING_RATE :: real
  NUM_EPOCHS :: int
  THRESHOLD :: real
  NOISE_FACTOR :: real
  dropout_entry :: "real option"
  k_fraction_entry :: "real option"
  TUNE_HYPERPARAMETERS :: bool

definition DROPOUT :: "globals \<Rightarrow> real" where
  "DROPOUT g = (case dropout_entry g of None \<Rightarrow> 0.2 | Some d \<Rightarrow> d)"

definition K_FRACTION :: "globals \<Rightarrow> real" where
  "K_FRACTION g = (case k_fraction_entry g of None \<Rightarrow> 0.1 | Some k \<Rightarrow> k)"

subsection \<open>Values passed between the steps\<close>

text \<open>A hyperparameter set: the dictionary with keys \<^verbatim>\<open>num_neurons\<close>,
  \<^verbatim>\<open>embedding_size\<close>, \<^verbatim>\<open>num_heads\<close>, \<^verbatim>\<open>learning_rate\<close>.\<close>

record hyperparams =
  num_neurons :: int
  embedding_size :: int
  num_heads :: int
  learning_rate :: real

text \<open>The keyword arguments of a \<^verbatim>\<open>GAT_VGAE(...)\<close> call; \<open>arg_dropout = None\<close> is a call
  that leaves \<^verbatim>\<open>dropout\<close> out, so that the constructor's own default applies.\<close>

record gat_args =
  arg_num_features :: nat
  arg_num_neurons :: int
  arg_embedding_size :: int
  arg_num_heads :: int
  arg_num_nodes :: nat
  arg_dropout :: "real option"

text \<open>The nine values \<^verbatim>\<open>evaluate_model\<close> returns, in order.\<close>

record metrics =
  m_roc_auc :: real
  m_prec :: real
  m_rec :: real
  m_f1 :: real
  m_epr :: real
  m_acc :: real
  m_num_gt_edges :: int
  m_n :: int
  m_overlap_count :: int

text \<open>
  The expression array: a two-dimensional array carries its shape with it, so that
  \<^verbatim>\<open>shape[1]\<close> is defined for an array without rows as well.
\<close>

record expression =
  expr_shape :: "nat \<times> nat"
  expr_rows :: matrix

text \<open>The variables bound by the preprocessing block (lines 62 to 67 and 127 to 132).
  The tensors \<^verbatim>\<open>expr_tensor\<close> and \<^verbatim>\<open>adj_matrix_tensor\<close> hold the values of
  \<^verbatim>\<open>expr_data\<close> and \<^verbatim>\<open>adj_matrix\<close>.\<close>

record data =
  expr_data :: expression
  gene_names :: "string list"
  adj_matrix :: adjacency
  edge_index :: "nat list \<times> nat list"
  true_adj_matrix :: adjacency

text \<open>\<^verbatim>\<open>adj_matrix.shape[0]\<close>, the number of rows, and \<^verbatim>\<open>expr_data.shape[1]\<close>.\<close>

definition shape0 :: "'a list list \<Rightarrow> nat" where
  "shape0 a = length a"

definition shape1 :: "expression \<Rightarrow> nat" where
  "shape1 a = snd (expr_shape a)"

subsection \<open>The collaborators\<close>

text \<open>
  The functions \<^verbatim>\<open>main.py\<close> imports from \<^verbatim>\<open>preprocessors\<close>, \<^verbatim>\<open>model\<close>,
  \<^verbatim>\<open>evaluators\<close> and \<^verbatim>\<open>loggers\<close> are parameters of the pipeline: each may read and
  change the world and may raise. \<open>'m\<close> is the type of a model object;
  \<^verbatim>\<open>train_and_evaluate\<close> changes the model in place, so it returns the trained model;
  \<open>model_call\<close> is \<^verbatim>\<open>model(edge_index, expr_tensor)\<close>. The optimizer
  \<^verbatim>\<open>Adam(model.parameters(), lr=...)\<close> is passed as its learning rate.
\<close>

record ('m, 'w) env =
  preprocess_data :: "string \<Rightarrow> (expression \<times> string list, 'w) prog"
  construct_adjacency_matrix_with_noise :: "expression \<Rightarrow> real \<Rightarrow> real \<Rightarrow> (adjacency, 'w) prog"
  construct_adjacency_matrix :: "expression \<Rightarrow> real \<Rightarrow> (adjacency, 'w) prog"
  create_true_adjacency_matrix :: "string \<Rightarrow> string list \<Rightarrow> (adjacency, 'w) prog"
  GAT_VGAE :: "gat_args \<Rightarrow> ('m, 'w) prog"
  train_and_evaluate ::
    "'m \<Rightarrow> nat list \<times> nat list \<Rightarrow> expression \<Rightarrow> adjacency \<Rightarrow> adjacency \<Rightarrow> int \<Rightarrow> real
       \<Rightarrow> hyperparams \<Rightarrow> ('m, 'w) prog"
  model_call :: "'m \<Rightarrow> nat list \<times> nat list \<Rightarrow> expression \<Rightarrow> (matrix, 'w) prog"
  evaluate_model :: "adjacency \<Rightarrow> matrix \<Rightarrow> (metrics, 'w) prog"
  log_run_info :: "string \<Rightarrow> hyperparams \<Rightarrow> metrics \<Rightarrow> string \<Rightarrow> (unit, 'w) prog"
  calculate_early_precision_rate :: "matrix \<Rightarrow> adjacency \<Rightarrow> (real, 'w) prog"
  calculate_whole_network_overlap :: "matrix \<Rightarrow> adjacency \<Rightarrow> adjacency \<Rightarrow> (real \<times> real, 'w) prog"

subsection \<open>The trial handed to \<^verbatim>\<open>objective\<close>\<close>

text \<open>
  A trial carries its number and the grid point the sampler assigned to it.
  \<^verbatim>\<open>trial.suggest_categorical(name, choices)\<close> returns the grid point's value for
  \<^verbatim>\<open>name\<close>, and raises when that value is not among \<^verbatim>\<open>choices\<close>. The parameter
  name is given as the field that holds it.
\<close>

record trial =
  number :: nat
  grid_point :: hyperparams

definition suggest_categorical :: "trial \<Rightarrow> (hyperparams \<Rightarrow> 'a) \<Rightarrow> 'a list \<Rightarrow> error + 'a" where
  "suggest_categorical t name choices =
     (if name (grid_point t) \<in> set choices then Inr (name (grid_point t)) else Inl ValueError)"

subsection \<open>\<^verbatim>\<open>objective\<close> (lines 53 to 95)\<close>

text \<open>
  The embedding keeps every call that can raise or change the world, in the order of the
  source. Printing, the choice of the device and the copies of arrays into tensors on that
  device are left out.

  Lines 62 to 67.
\<close>

definition objective_data :: "('m, 'w) env \<Rightarrow> globals \<Rightarrow> (data, 'w) prog" where
  "objective_data env g =
     bind (preprocess_data env (EXPR_FILE g)) (\<lambda>(expr, names).
     bind (construct_adjacency_matrix_with_noise env expr (THRESHOLD g) (NOISE_FACTOR g)) (\<lambda>adj.
     bind (return (np_where_eq1 adj)) (\<lambda>ei.
     bind (create_true_adjacency_matrix env (NETWORK_FILE g) names) (\<lambda>true_adj.
     return \<lparr>expr_data = expr, gene_names = names, adj_matrix = adj, edge_index = ei,
             true_adj_matrix = true_adj\<rparr>))))"

text \<open>Lines 74 to 80: no \<^verbatim>\<open>dropout\<close> keyword.\<close>

definition objective_model_args :: "data \<Rightarrow> hyperparams \<Rightarrow> gat_args" where
  "objective_model_args d hp =
     \<lparr>arg_num_features = shape1 (expr_data d),
      arg_num_neurons = num_neurons hp,
      arg_embedding_size = embedding_size hp,
      arg_num_heads = num_heads hp,
      arg_num_nodes = shape0 (adj_matrix d),
      arg_dropout = None\<rparr>"

definition objective :: "('m, 'w) env \<Rightarrow> globals \<Rightarrow> trial \<Rightarrow> (real, 'w) prog" where
  "objective env g t =
     bind (lift (suggest_categorical t num_neurons [16, 32, 64, 128])) (\<lambda>nn.
     bind (lift (suggest_categorical t embedding_size [8, 16, 32, 64])) (\<lambda>es.
     bind (lift (suggest_categorical t num_heads [2, 4, 8, 16])) (\<lambda>nh.
     bind (lift (suggest_categorical t learning_rate [0.001, 0.0001, 0.005, 0.0005])) (\<lambda>lr.
     let hp = \<lparr>num_neurons = nn, embedding_size = es, num_heads = nh, learning_rate = lr\<rparr> in
     bind (objective_data env g) (\<lambda>d.
     bind (GAT_VGAE env (objective_model_args d hp)) (\<lambda>model.
     bind (train_and_evaluate env model (edge_index d) (expr_data d) (adj_matrix d)
             (true_adj_matrix d) (NUM_EPOCHS g) lr hp) (\<lambda>trained.
     bind (model_call env trained (edge_index d) (expr_data d)) (\<lambda>reconstructed_adjacency_eval.
     bind (evaluate_model env (true_adj_matrix d) reconstructed_adjacency_eval) (\<lambda>m.
     bind (log_run_info env (run_id g) hp m (DATASET g)) (\<lambda>_.
     return (m_roc_auc m)))))))))))"

subsection \<open>The grid search (lines 103 to 115)\<close>

record grid_space =
  space_num_neurons :: "int list"
  space_embedding_size :: "int list"
  space_num_heads :: "int list"
  space_learning_rate :: "real list"

text \<open>Lines 104 to 109.\<close>

definition search_space :: grid_space where
  "search_space =
     \<lparr>space_num_neurons = [16, 32, 64, 128],
      space_embedding_size = [8, 16, 32, 64],
      space_num_heads = [2, 4, 8, 16],
      space_learning_rate = [0.001, 0.0005]\<rparr>"

text \<open>
  Modelled from the spec: the grid sampler and the study are the search library's, not
  part of the sources. The spec has the search driver supply an exhaustive enumeration of
  the hyperparameter grid to the per-trial entry point, run the trials one at a time,
  let a trial's error abort the whole search, and select the trial with maximum ROC-AUC.

  The grid is the product of the value lists of the search space. Each trial takes one
  grid point not visited so far; which one is decided by \<open>pick\<close> (it is given the
  trial number and the unvisited grid ids and answers with a position in that list), so the
  order of the enumeration is a function of \<open>pick\<close> alone. The search ends after
  \<open>n_trials\<close> trials or when no grid point is left. An error of the objective that
  \<open>catch\<close> accepts marks the trial as failed (no value) and the search goes on; any other
  error is raised again.
\<close>

definition all_grids :: "grid_space \<Rightarrow> hyperparams list" where
  "all_grids s =
     [\<lparr>num_neurons = nn, embedding_size = es, num_heads = nh, learning_rate = lr\<rparr>.
        es \<leftarrow> space_embedding_size s, lr \<leftarrow> space_learning_rate s,
        nh \<leftarrow> space_num_heads s, nn \<leftarrow> space_num_neurons s]"

record frozen_trial =
  ft_number :: nat
  ft_params :: hyperparams
  ft_value :: "real option"

fun run_trials ::
  "(trial \<Rightarrow> (real, 'w) prog) \<Rightarrow> (error \<Rightarrow> bool) \<Rightarrow> (nat \<Rightarrow> nat list \<Rightarrow> nat) \<Rightarrow> hyperparams list
     \<Rightarrow> nat \<Rightarrow> nat list \<Rightarrow> frozen_trial list \<Rightarrow> (frozen_trial list, 'w) prog" where
  "run_trials obj catch pick grid 0 unvisited finished w = Inr (finished, w)"
| "run_trials obj catch pick grid (Suc k) unvisited finished w =
     (if unvisited = [] then Inr (finished, w)
      else
        let gid = unvisited ! (pick (length finished) unvisited mod length unvisited);
            t = \<lparr>number = length finished, grid_point = grid ! gid\<rparr>
        in case obj t w of
             Inr (v, w') \<Rightarrow>
               run_trials obj catch pick grid k (remove1 gid unvisited)
                 (finished @ [\<lparr>ft_number = number t, ft_params = grid_point t, ft_value = Some v\<rparr>]) w'
           | Inl e \<Rightarrow>
               if catch e
               then run_trials obj catch pick grid k (remove1 gid unvisited)
                      (finished @ [\<lparr>ft_number = number t, ft_params = grid_point t, ft_value = None\<rparr>]) w
               else Inl e)"

definition study_optimize ::
  "(trial \<Rightarrow> (real, 'w) prog) \<Rightarrow> nat \<Rightarrow> (error \<Rightarrow> bool) \<Rightarrow> (nat \<Rightarrow> nat list \<Rightarrow> nat) \<Rightarrow> grid_space
     \<Rightarrow> (frozen_trial list, 'w) prog" where
  "study_optimize obj n_trials catch pick space =
     run_trials obj catch pick (all_grids space) n_trials [0..<length (all_grids space)] []"

text \<open>\<^verbatim>\<open>study.best_trial\<close> with \<^verbatim>\<open>direction="maximize"\<close>: the first trial of maximal
  value among the trials that have one; an error when there is none.\<close>

fun better :: "frozen_trial option \<Rightarrow> frozen_trial \<Rightarrow> frozen_trial option" where
  "better None t = (case ft_value t of None \<Rightarrow> None | Some v \<Rightarrow> Some t)"
| "better (Some b) t =
     (case (ft_value b, ft_value t) of
        (Some u, Some v) \<Rightarrow> if u < v then Some t else Some b
      | _ \<Rightarrow> Some b)"

definition best_trial :: "frozen_trial list \<Rightarrow> error + frozen_trial" where
  "best_trial study = (case foldl better None study of None \<Rightarrow> Inl ValueError | Some b \<Rightarrow> Inr b)"

subsection \<open>The main block (lines 101 to 211)\<close>

text \<open>
  As for the objective, printing, timing and device placement are left out, and so is the
  sound played after the block (line 221).

  Lines 127 to 132.
\<close>

definition main_data :: "('m, 'w) env \<Rightarrow> globals \<Rightarrow> (data, 'w) prog" where
  "main_data env g =
     bind (preprocess_data env (EXPR_FILE g)) (\<lambda>(expr, names).
     bind (construct_adjacency_matrix_with_noise env expr (THRESHOLD g) (NOISE_FACTOR g)) (\<lambda>adj.
     bind (return (np_where_eq1 adj)) (\<lambda>ei.
     bind (create_true_adjacency_matrix env (NETWORK_FILE g) names) (\<lambda>true_adj.
     return \<lparr>expr_data = expr, gene_names = names, adj_matrix = adj, edge_index = ei,
             true_adj_matrix = true_adj\<rparr>))))"

text \<open>Lines 140 to 147.\<close>

definition main_model_args :: "globals \<Rightarrow> data \<Rightarrow> hyperparams \<Rightarrow> gat_args" where
  "main_model_args g d best_params =
     \<lparr>arg_num_features = shape1 (expr_data d),
      arg_num_neurons = num_neurons best_params,
      arg_embedding_size = embedding_size best_params,
      arg_num_heads = num_heads best_params,
      arg_num_nodes = shape0 (adj_matrix d),
      arg_dropout = Some (DROPOUT g)\<rparr>"

text \<open>Line 207: the correlation baseline handed to the whole-network comparison.\<close>

definition main_pcc :: "('m, 'w) env \<Rightarrow> globals \<Rightarrow> data \<Rightarrow> (adjacency, 'w) prog" where
  "main_pcc env g d = construct_adjacency_matrix env (expr_data d) (THRESHOLD g)"

text \<open>Lines 103 to 124: the hyperparameters of the final run, with the trials of the study
  when there was one. The search is started with \<^verbatim>\<open>n_trials=256\<close> and no
  \<^verbatim>\<open>catch\<close> argument, whose default accepts no error.\<close>

definition select_params ::
  "('m, 'w) env \<Rightarrow> globals \<Rightarrow> (nat \<Rightarrow> nat list \<Rightarrow> nat) \<Rightarrow> (frozen_trial list option \<times> hyperparams, 'w) prog" where
  "select_params env g pick =
     (if TUNE_HYPERPARAMETERS g then
        bind (study_optimize (objective env g) 256 (\<lambda>e. False) pick search_space) (\<lambda>study.
        bind (lift (best_trial study)) (\<lambda>best.
        return (Some study, ft_params best)))
      else
        return (None, \<lparr>num_neurons = NUM_NEURONS g, embedding_size = EMBEDDING_SIZE g,
                       num_heads = NUM_HEADS g, learning_rate = LEARNING_RATE g\<rparr>))"

text \<open>The variables of the main block when it ends.\<close>

record 'm final =
  study_trials :: "frozen_trial list option"
  best_params :: hyperparams
  prepared :: data
  model_args :: gat_args
  model :: 'm
  reconstructed_adjacency :: matrix
  evaluation :: metrics
  accuracy :: real
  epr_final :: real
  pcc_matrix :: adjacency
  pcc_overlap :: real
  pred_overlap :: real

definition main :: "('m, 'w) env \<Rightarrow> globals \<Rightarrow> (nat \<Rightarrow> nat list \<Rightarrow> nat) \<Rightarrow> ('m final, 'w) prog" where
  "main env g pick =
     bind (select_params env g pick) (\<lambda>(study, best).
     bind (main_data env g) (\<lambda>d.
     bind (GAT_VGAE env (main_model_args g d best)) (\<lambda>model0.
     bind (train_and_evaluate env model0 (edge_index d) (expr_data d) (adj_matrix d)
             (true_adj_matrix d) (NUM_EPOCHS g) (learning_rate best) best) (\<lambda>trained.
     bind (model_call env trained (edge_index d) (expr_data d)) (\<lambda>recon.
     bind (evaluate_model env (true_adj_matrix d) recon) (\<lambda>m.
     bind (lift (final_accuracy (true_adj_matrix d) recon)) (\<lambda>acc.
     bind (calculate_early_precision_rate env recon (true_adj_matrix d)) (\<lambda>epr.
     bind (main_pcc env g d) (\<lambda>pcc.
     bind (calculate_whole_network_overlap env recon (true_adj_matrix d) pcc) (\<lambda>(po, pr).
     return \<lparr>study_trials = study, best_params = best, prepared = d,
             model_args = main_model_args g d best, model = trained,
             reconstructed_adjacency = recon, evaluation = m, accuracy = acc,
             epr_final = epr, pcc_matrix = pcc, pcc_overlap = po, pred_overlap = pr\<rparr>))))))))))"

text \<open>
  \<open>in_choices\<close> holds of a grid point that passes the four
  \<^verbatim>\<open>suggest_categorical\<close> calls of \<^verbatim>\<open>objective\<close>. A trial of a finished study \<open>ran\<close> an
  objective when its value is one the objective returned for that trial's number and grid
  point. It is \<open>trained_and_scored\<close> when its value is the ROC-AUC that
  \<^verbatim>\<open>evaluate_model\<close> returned for the true adjacency of a preprocessing run and the
  reconstruction of the model that was constructed with the trial's hyperparameters and
  trained on that run's data, each call starting in the world the one before left.
\<close>

definition ran :: "(trial \<Rightarrow> (real, 'w) prog) \<Rightarrow> frozen_trial \<Rightarrow> bool" where
  "ran obj t = (\<exists>v w1 w2. ft_value t = Some v \<and>
                  obj \<lparr>number = ft_number t, grid_point = ft_params t\<rparr> w1 = Inr (v, w2))"

definition trained_and_scored :: "('m, 'w) env \<Rightarrow> globals \<Rightarrow> frozen_trial \<Rightarrow> bool" where
  "trained_and_scored env g t =
     (\<exists>d m0 trained recon m w w1 w2 w3 w4 w5 w6.
        objective_data env g w = Inr (d, w1) \<and>
        GAT_VGAE env (objective_model_args d (ft_params t)) w1 = Inr (m0, w2) \<and>
        train_and_evaluate env m0 (edge_index d) (expr_data d) (adj_matrix d) (true_adj_matrix d)
          (NUM_EPOCHS g) (learning_rate (ft_params t)) (ft_params t) w2 = Inr (trained, w3) \<and>
        model_call env trained (edge_index d) (expr_data d) w3 = Inr (recon, w4) \<and>
        evaluate_model env (true_adj_matrix d) recon w4 = Inr (m, w5) \<and>
        log_run_info env (run_id g) (ft_params t) m (DATASET g) w5 = Inr ((), w6) \<and>
        ft_value t = Some (m_roc_auc m))"

definition in_choices :: "hyperparams \<Rightarrow> bool" where
  "in_choices p = (num_neurons p \<in> set [16, 32, 64, 128] \<and> embedding_size p \<in> set [8, 16, 32, 64]
      \<and> num_heads p \<in> set [2, 4, 8, 16]
      \<and> learning_rate p \<in> set [0.001, 0.0001, 0.005, 0.0005])"

section \<open>The collaborators as the specification describes them\<close>

text \<open>
  \<^verbatim>\<open>model.py\<close>, \<^verbatim>\<open>preprocessors.py\<close> and \<^verbatim>\<open>evaluators.py\<close> are not among the
  sources. Where a property is about what they compute, they are modelled from the
  specification's description, over the real numbers.
\<close>

subsection \<open>The model's forward pass\<close>

definition dot :: "real list \<Rightarrow> real list \<Rightarrow> real" where
  "dot u v = sum_list (map2 (*) u v)"

definition sigmoid :: "real \<Rightarrow> real" where
  "sigmoid x = 1 / (1 + exp (- x))"

text \<open>Modelled from the spec: the inner-product decoder of the missing \<^verbatim>\<open>model.py\<close>, the
  elementwise sigmoid of \<open>z \<cdot> z\<^sup>T\<close>, the dot product of every node pair's latent vectors.\<close>

definition decoder :: "matrix \<Rightarrow> matrix" where
  "decoder z = map (\<lambda>u. map (\<lambda>v. sigmoid (dot u v)) z) z"

text \<open>Modelled from the spec: the variational head of the missing \<^verbatim>\<open>model.py\<close>, two
  parallel linear projections of a node's hidden embedding.\<close>

definition linear :: "matrix \<Rightarrow> real list \<Rightarrow> real list \<Rightarrow> real list" where
  "linear W b h = map (\<lambda>(row, bias). dot row h + bias) (zip W b)"

text \<open>Modelled from the spec: the reparameterization of the missing \<^verbatim>\<open>model.py\<close>,
  \<open>z = mean + exp (0.5 * logvar) * noise\<close>.\<close>

definition reparameterize :: "real list \<Rightarrow> real list \<Rightarrow> real list \<Rightarrow> real list" where
  "reparameterize mean logvar noise =
     map (\<lambda>(m, lv, e). m + exp (0.5 * lv) * e) (zip mean (zip logvar noise))"

record 'a model_params =
  numNodes :: nat
  attention_params :: 'a
  mean_weight :: matrix
  mean_bias :: "real list"
  logvar_weight :: matrix
  logvar_bias :: "real list"

text \<open>
  Modelled from the spec: \<open>model(edgeIndex, features)\<close> of the missing \<^verbatim>\<open>model.py\<close>. The
  attention encoder is a parameter: any function from the attention parameters, the
  features, the edge list and a node to that node's hidden embedding. In training the
  latent vector of a node is the reparameterized sample with that node's noise; in
  inference it is the mean. The output is the decoder applied to the latent vectors of the
  \<open>numNodes\<close> nodes.
\<close>

definition forward ::
  "('a \<Rightarrow> matrix \<Rightarrow> (nat \<times> nat) list \<Rightarrow> nat \<Rightarrow> real list) \<Rightarrow> 'a model_params \<Rightarrow> bool
     \<Rightarrow> (nat \<Rightarrow> real list) \<Rightarrow> (nat \<times> nat) list \<Rightarrow> matrix \<Rightarrow> matrix" where
  "forward attention_encoder \<theta> training noise edgeIndex features =
     (let latent = (\<lambda>v.
            let h = attention_encoder (attention_params \<theta>) features edgeIndex v;
                mean = linear (mean_weight \<theta>) (mean_bias \<theta>) h;
                logvar = linear (logvar_weight \<theta>) (logvar_bias \<theta>) h
            in if training then reparameterize mean logvar (noise v) else mean);
          z = map latent [0..<numNodes \<theta>]
      in decoder z)"

subsection \<open>The graph constructor\<close>

text \<open>Genes are the columns of the expression matrix.\<close>

definition column :: "expression \<Rightarrow> nat \<Rightarrow> real list" where
  "column expr j = map (\<lambda>row. row ! j) (expr_rows expr)"

definition mean_of :: "real list \<Rightarrow> real" where
  "mean_of xs = sum_list xs / real (length xs)"

text \<open>The Pearson correlation of two columns; none when one of them has no variance.\<close>

definition pearson :: "real list \<Rightarrow> real list \<Rightarrow> real option" where
  "pearson xs ys =
     (let mx = mean_of xs; my = mean_of ys;
          cov = sum_list (map2 (\<lambda>x y. (x - mx) * (y - my)) xs ys);
          vx = sum_list (map (\<lambda>x. (x - mx)\<^sup>2) xs);
          vy = sum_list (map (\<lambda>y. (y - my)\<^sup>2) ys)
      in if vx = 0 \<or> vy = 0 then None else Some (cov / (sqrt vx * sqrt vy)))"

definition correlated :: "expression \<Rightarrow> real \<Rightarrow> nat \<Rightarrow> nat \<Rightarrow> bool" where
  "correlated expr t i j =
     (case pearson (column expr i) (column expr j) of None \<Rightarrow> False | Some c \<Rightarrow> \<bar>c\<bar> > t)"

text \<open>
  Modelled from the spec: \<open>constructAdjacency\<close> of the missing \<^verbatim>\<open>preprocessors.py\<close>.
  Entry \<open>(i, j)\<close> is 1 if \<open>|corr(i, j)| > threshold\<close> and \<open>i \<noteq> j\<close>, else 0; fewer than two
  genes are a \<open>DataError\<close>.
\<close>

definition constructAdjacency :: "expression \<Rightarrow> real \<Rightarrow> error + adjacency" where
  "constructAdjacency expr t =
     (let genes = shape1 expr in
      if genes < 2 then Inl DataError
      else Inr (map (\<lambda>i. map (\<lambda>j. if i \<noteq> j \<and> correlated expr t i j then 1 else 0) [0..<genes])
                  [0..<genes]))"

text \<open>A raw draw of the random source, scaled to the unit interval.\<close>

definition uniform01 :: "nat \<Rightarrow> real" where
  "uniform01 r = real (r mod 2 ^ 53) / 2 ^ 53"

definition flip :: "int \<Rightarrow> int" where
  "flip a = (if a = 0 then 1 else 0)"

text \<open>
  Modelled from the spec: the perturbation step of \<open>constructAdjacencyWithNoise\<close> in the
  missing \<^verbatim>\<open>preprocessors.py\<close>. Each unordered pair of distinct genes has its own draw
  and is flipped with probability \<open>p\<close>, in both directions at once.
\<close>

definition perturb :: "(nat \<Rightarrow> nat \<Rightarrow> nat) \<Rightarrow> real \<Rightarrow> adjacency \<Rightarrow> adjacency" where
  "perturb draws p a =
     map (\<lambda>i. map (\<lambda>j. if i \<noteq> j \<and> uniform01 (draws (min i j) (max i j)) < p
                        then flip (a ! i ! j) else a ! i ! j)
                 [0..<length (a ! i)])
         [0..<length a]"

text \<open>
  Modelled from the spec: \<open>constructAdjacencyWithNoise\<close> of the missing
  \<^verbatim>\<open>preprocessors.py\<close>: as \<open>constructAdjacency\<close>, then the perturbation with a
  probability proportional to the noise factor (by the factor \<open>scale\<close>); a noise factor or
  a threshold outside \<open>[0, 1]\<close> is a \<open>ConfigError\<close>.
\<close>

definition constructAdjacencyWithNoise ::
  "(nat \<Rightarrow> nat \<Rightarrow> nat) \<Rightarrow> real \<Rightarrow> expression \<Rightarrow> real \<Rightarrow> real \<Rightarrow> error + adjacency" where
  "constructAdjacencyWithNoise draws scale expr t noiseFactor =
     (if noiseFactor < 0 \<or> 1 < noiseFactor \<or> t < 0 \<or> 1 < t then Inl ConfigError
      else case constructAdjacency expr t of
             Inl e \<Rightarrow> Inl e
           | Inr a \<Rightarrow> Inr (perturb draws (scale * noiseFactor) a))"

subsection \<open>The early precision rate\<close>

text \<open>The unordered pairs of distinct nodes, each once, in matrix order.\<close>

definition upper_pairs :: "nat \<Rightarrow> (nat \<times> nat) list" where
  "upper_pairs n = concat (map (\<lambda>i. map (Pair i) [Suc i..<n]) [0..<n])"

text \<open>The ground-truth edges: the entries 1 above the diagonal.\<close>

definition numGroundTruthEdges :: "adjacency \<Rightarrow> nat" where
  "numGroundTruthEdges truth =
     sum_list (map (\<lambda>(i, row). length (filter (\<lambda>x. x = 1) (drop (Suc i) row))) (enumerate 0 truth))"

text \<open>\<open>k = floor(kFraction \<times> numGroundTruthEdges)\<close>\<close>

definition topK :: "real \<Rightarrow> adjacency \<Rightarrow> int" where
  "topK kFraction truth = \<lfloor>kFraction * real (numGroundTruthEdges truth)\<rfloor>"

text \<open>Division as the language has it: dividing by zero raises.\<close>

definition divide_checked :: "real \<Rightarrow> int \<Rightarrow> error + real" where
  "divide_checked x k = (if k = 0 then Inl ZeroDivisionError else Inr (x / real_of_int k))"

definition same_shape :: "matrix \<Rightarrow> adjacency \<Rightarrow> bool" where
  "same_shape a b = (map length a = map length b)"

text \<open>
  Modelled from the spec: the early precision rate of the missing \<^verbatim>\<open>evaluators.py\<close>.
  The \<open>k\<close> highest-scoring pairs are taken (ties in matrix order); the rate is the number
  of those present in the ground truth, divided by \<open>k\<close>; it is 0 if \<open>k = 0\<close>.
\<close>

definition earlyPrecisionRate :: "real \<Rightarrow> matrix \<Rightarrow> adjacency \<Rightarrow> error + real" where
  "earlyPrecisionRate kFraction reconstructed truth =
     (let k = topK kFraction truth in
      if k = 0 then Inr 0
      else if \<not> same_shape reconstructed truth then Inl DataError
      else
        let ranked = sort_key (\<lambda>(i, j). - (reconstructed ! i ! j)) (upper_pairs (length reconstructed));
            top = take (nat k) ranked;
            hits = length (filter (\<lambda>(i, j). truth ! i ! j = 1) top)
        in divide_checked (real hits) k)"

section \<open>A small run\<close>

text \<open>
  An environment of three genes in which every collaborator succeeds. The model object is
  the record of its constructor arguments with the number of epochs it was trained for;
  the reconstruction puts \<open>num_neurons \<times> epochs / 200\<close> at the first gene pair (0 for a
  model that was not trained), and the ROC-AUC reported is that entry. The world counts
  the rows written by \<^verbatim>\<open>log_run_info\<close>.
\<close>

definition demo_expr :: expression where
  "demo_expr = \<lparr>expr_shape = (3, 3), expr_rows = [[1, 2, 3], [2, 4, 1], [3, 6, 2]]\<rparr>"

definition demo_recon :: "gat_args \<times> nat \<Rightarrow> matrix" where
  "demo_recon m =
     [[1 / 2, real_of_int (arg_num_neurons (fst m)) * real (snd m) / 200, 1 / 10],
      [real_of_int (arg_num_neurons (fst m)) * real (snd m) / 200, 1 / 2, 1 / 5],
      [1 / 10, 1 / 5, 1 / 2]]"

definition demo_env :: "(gat_args \<times> nat, nat) env" where
  "demo_env =
     \<lparr>preprocess_data = (\<lambda>file. return (demo_expr, [''g1'', ''g2'', ''g3''])),
      construct_adjacency_matrix_with_noise = (\<lambda>expr t nf. return [[0, 1, 0], [1, 0, 1], [0, 1, 0]]),
      construct_adjacency_matrix = (\<lambda>expr t. return [[0, 1, 0], [1, 0, 0], [0, 0, 0]]),
      create_true_adjacency_matrix = (\<lambda>file names. return [[0, 1, 0], [1, 0, 0], [0, 0, 0]]),
      GAT_VGAE = (\<lambda>args. return (args, 0)),
      train_and_evaluate = (\<lambda>m ei x a t epochs lr hp. return (fst m, snd m + nat epochs)),
      model_call = (\<lambda>m ei x. return (demo_recon m)),
      evaluate_model = (\<lambda>t r. return
         \<lparr>m_roc_auc = r ! 0 ! 1, m_prec = 1, m_rec = 1, m_f1 = 1, m_epr = 1, m_acc = 1,
          m_num_gt_edges = 1, m_n = 3, m_overlap_count = 1\<rparr>),
      log_run_info = (\<lambda>rid hp m ds w. Inr ((), Suc w)),
      calculate_early_precision_rate = (\<lambda>r t. return 1),
      calculate_whole_network_overlap = (\<lambda>r t p. return (1, 1))\<rparr>"

text \<open>The same environment with a training that fails, and with an evaluation that
  fails.\<close>

definition failing_env :: "(gat_args \<times> nat, nat) env" where
  "failing_env = demo_env\<lparr>train_and_evaluate := (\<lambda>m ei x a t epochs lr hp w. Inl TrainingError)\<rparr>"

definition failing_eval_env :: "(gat_args \<times> nat, nat) env" where
  "failing_eval_env = demo_env\<lparr>evaluate_model := (\<lambda>t r w. Inl DataError)\<rparr>"

definition demo_globals :: globals where
  "demo_globals =
     \<lparr>run_id = ''run'', RUN_INFO_PATH = ''runs.csv'', EPOCH_INFO_PATH = ''epochs.csv'',
      EXPR_FILE = ''expr.csv'', NETWORK_FILE = ''net.csv'', DATASET = ''demo'',
      NUM_NEURONS = 32, EMBEDDING_SIZE = 16, NUM_HEADS = 4, LEARNING_RATE = 0.001,
      NUM_EPOCHS = 1, THRESHOLD = 1 / 2, NOISE_FACTOR = 1 / 10,
      dropout_entry = Some (3 / 10), k_fraction_entry = None, TUNE_HYPERPARAMETERS = True\<rparr>"

definition demo_fixed :: globals where
  "demo_fixed = demo_globals\<lparr>TUNE_HYPERPARAMETERS := False\<rparr>"

text \<open>The values the fixed-hyperparameter run of this environment ends with.\<close>

definition demo_data :: data where
  "demo_data =
     \<lparr>expr_data = demo_expr, gene_names = [''g1'', ''g2'', ''g3''],
      adj_matrix = [[0, 1, 0], [1, 0, 1], [0, 1, 0]],
      edge_index = ([0, 1, 1, 2], [1, 0, 2, 1]),
      true_adj_matrix = [[0, 1, 0], [1, 0, 0], [0, 0, 0]]\<rparr>"

definition demo_args :: gat_args where
  "demo_args =
     \<lparr>arg_num_features = 3, arg_num_neurons = 32, arg_embedding_size = 16, arg_num_heads = 4,
      arg_num_nodes = 3, arg_dropout = Some (3 / 10)\<rparr>"

definition demo_final :: "(gat_args \<times> nat) final" where
  "demo_final =
     \<lparr>study_trials = None,
      best_params = \<lparr>num_neurons = 32, embedding_size = 16, num_heads = 4, learning_rate = 0.001\<rparr>,
      prepared = demo_data,
      model_args = demo_args,
      model = (demo_args, 1),
      reconstructed_adjacency = [[1 / 2, 4 / 25, 1 / 10], [4 / 25, 1 / 2, 1 / 5], [1 / 10, 1 / 5, 1 / 2]],
      evaluation = \<lparr>m_roc_auc = 4 / 25, m_prec = 1, m_rec = 1, m_f1 = 1, m_epr = 1, m_acc = 1,
                    m_num_gt_edges = 1, m_n = 3, m_overlap_count = 1\<rparr>,
      accuracy = 7 / 9,
      epr_final = 1,
      pcc_matrix = [[0, 1, 0], [1, 0, 0], [0, 0, 0]],
      pcc_overlap = 1,
      pred_overlap = 1\<rparr>"

section \<open>Properties\<close>

subsection \<open>The edge index\<close>

lemma upt_0_Cons: "[0..<length (x # xs)] = 0 # map Suc [0..<length xs]"
  by (simp add: upt_conv_Cons map_Suc_upt del: upt_Suc)

lemma where_row_map:
  "where_row i j xs = map (\<lambda>b. (i, j + b)) (filter (\<lambda>b. xs ! b = 1) [0..<length xs])"
proof (induction xs arbitrary: j)
  case Nil
  then show ?case by simp
next
  case (Cons x xs)
  show ?case
    unfolding upt_0_Cons using Cons.IH [of "Suc j"] by (simp add: filter_map o_def)
qed

lemma where_rows_map:
  "where_rows i rs =
     concat (map (\<lambda>a. map (\<lambda>b. (i + a, b)) (filter (\<lambda>b. rs ! a ! b = 1) [0..<length (rs ! a)]))
               [0..<length rs])"
proof (induction rs arbitrary: i)
  case Nil
  then show ?case by simp
next
  case (Cons r rs)
  show ?case
    unfolding upt_0_Cons using Cons.IH [of "Suc i"] by (simp add: where_row_map o_def)
qed

lemma where_rows_positions:
  "where_rows 0 a = filter (\<lambda>(i, j). a ! i ! j = 1) (positions a)"
  by (simp add: where_rows_map positions_def filter_concat filter_map o_def)

lemma edge_pairs_np_where: "edge_pairs (np_where_eq1 a) = where_rows 0 a"
  by (simp add: edge_pairs_def np_where_eq1_def zip_map_fst_snd)

lemma set_positions:
  "set (positions a) = {(i, j). i < length a \<and> j < length (a ! i)}"
  by (auto simp: positions_def)

subsection \<open>Auxiliary facts\<close>





lemma bind_Inr:
  "bind m f w = Inr r \<longleftrightarrow> (\<exists>x w1. m w = Inr (x, w1) \<and> f x w1 = Inr r)"
  by (auto simp: bind_def split: sum.splits)

lemma bind_Inl:
  "bind m f w = Inl e \<longleftrightarrow> (m w = Inl e \<or> (\<exists>x w1. m w = Inr (x, w1) \<and> f x w1 = Inl e))"
  by (auto simp: bind_def split: sum.splits)

lemma return_Inl: "return x w \<noteq> Inl e"
  by (simp add: return_def)

lemma lift_Inl: "lift r w = Inl e \<longleftrightarrow> r = Inl e"
  by (auto simp: lift_def split: sum.splits)

lemma return_Inr: "return x w = Inr r \<longleftrightarrow> r = (x, w)"
  by (auto simp: return_def)

lemma lift_Inr: "lift r w = Inr p \<longleftrightarrow> (\<exists>x. r = Inr x \<and> p = (x, w))"
  by (auto simp: lift_def split: sum.splits)

lemma main_data_edge_index:
  "main_data env g w = Inr (d, w') \<Longrightarrow> edge_index d = np_where_eq1 (adj_matrix d)"
  by (auto simp: main_data_def bind_Inr return_Inr split: prod.splits)

lemma objective_data_edge_index:
  "objective_data env g w = Inr (d, w') \<Longrightarrow> edge_index d = np_where_eq1 (adj_matrix d)"
  by (auto simp: objective_data_def bind_Inr return_Inr split: prod.splits)

lemma main_InrE:
  assumes "main env g pick w = Inr (fin, w')"
  obtains w0 w1 w2 w3 w4 w5 w6 w7 model0 where
    "select_params env g pick w = Inr ((study_trials fin, best_params fin), w0)" and
    "main_data env g w0 = Inr (prepared fin, w1)" and
    "model_args fin = main_model_args g (prepared fin) (best_params fin)" and
    "GAT_VGAE env (model_args fin) w1 = Inr (model0, w2)" and
    "train_and_evaluate env model0 (edge_index (prepared fin)) (expr_data (prepared fin))
       (adj_matrix (prepared fin)) (true_adj_matrix (prepared fin)) (NUM_EPOCHS g)
       (learning_rate (best_params fin)) (best_params fin) w2 = Inr (model fin, w3)" and
    "model_call env (model fin) (edge_index (prepared fin)) (expr_data (prepared fin)) w3
       = Inr (reconstructed_adjacency fin, w4)" and
    "evaluate_model env (true_adj_matrix (prepared fin)) (reconstructed_adjacency fin) w4
       = Inr (evaluation fin, w5)" and
    "final_accuracy (true_adj_matrix (prepared fin)) (reconstructed_adjacency fin)
       = Inr (accuracy fin)" and
    "calculate_early_precision_rate env (reconstructed_adjacency fin)
       (true_adj_matrix (prepared fin)) w5 = Inr (epr_final fin, w6)" and
    "construct_adjacency_matrix env (expr_data (prepared fin)) (THRESHOLD g) w6
       = Inr (pcc_matrix fin, w7)" and
    "calculate_whole_network_overlap env (reconstructed_adjacency fin)
       (true_adj_matrix (prepared fin)) (pcc_matrix fin) w7
       = Inr ((pcc_overlap fin, pred_overlap fin), w')"
  using assms unfolding main_def main_pcc_def
  by (auto simp: bind_Inr return_Inr lift_Inr split: prod.splits)

lemma better_cases:
  "better acc t = r \<Longrightarrow> (\<forall>a. acc = Some a \<longrightarrow> ft_value a \<noteq> None) \<Longrightarrow>
     (\<forall>b. r = Some b \<longrightarrow> ft_value b \<noteq> None \<and> (r = acc \<or> b = t)) \<and>
     (r = None \<longrightarrow> acc = None \<and> ft_value t = None) \<and>
     (\<forall>b u v. r = Some b \<longrightarrow> ft_value b = Some v \<longrightarrow>
        (ft_value t = Some u \<longrightarrow> u \<le> v) \<and> (\<forall>a. acc = Some a \<longrightarrow> ft_value a = Some u \<longrightarrow> u \<le> v))"
  by (cases acc) (auto split: option.splits if_splits)

lemma foldl_better:
  "foldl better acc ts = Some b \<Longrightarrow> (\<forall>a. acc = Some a \<longrightarrow> ft_value a \<noteq> None) \<Longrightarrow>
     (acc = Some b \<or> b \<in> set ts) \<and> (\<exists>v. ft_value b = Some v \<and>
        (\<forall>t u. (t \<in> set ts \<or> acc = Some t) \<longrightarrow> ft_value t = Some u \<longrightarrow> u \<le> v))"
proof (induction ts arbitrary: acc)
  case Nil
  then show ?case by auto
next
  case (Cons t ts)
  let ?acc = "better acc t"
  have step: "foldl better ?acc ts = Some b" using Cons.prems(1) by simp
  have ok: "\<forall>a. ?acc = Some a \<longrightarrow> ft_value a \<noteq> None"
    using better_cases [OF refl Cons.prems(2), of t] by blast
  from Cons.IH [OF step ok] obtain v where
    mem: "?acc = Some b \<or> b \<in> set ts" and v: "ft_value b = Some v" and
    mx: "\<forall>s u. (s \<in> set ts \<or> ?acc = Some s) \<longrightarrow> ft_value s = Some u \<longrightarrow> u \<le> v"
    by blast
  have m1: "acc = Some b \<or> b \<in> set (t # ts)"
    using mem better_cases [OF refl Cons.prems(2), of t] by auto
  have m2: "u \<le> v" if "s \<in> set (t # ts) \<or> acc = Some s" "ft_value s = Some u" for s u
  proof (cases "s \<in> set ts")
    case True
    with mx that show ?thesis by blast
  next
    case False
    show ?thesis
    proof (cases ?acc)
      case None
      with better_cases [OF refl Cons.prems(2), of t] that False show ?thesis by auto
    next
      case (Some c)
      with ok obtain x where x: "ft_value c = Some x" by auto
      from mx Some x have "x \<le> v" by blast
      moreover from better_cases [OF refl Cons.prems(2), of t] Some x that False
      have "u \<le> x" by auto
      ultimately show ?thesis by simp
    qed
  qed
  from m1 v m2 show ?case by blast
qed

lemma best_trial_max:
  assumes "best_trial study = Inr b"
  shows "b \<in> set study \<and> (\<exists>v. ft_value b = Some v \<and>
           (\<forall>t u. t \<in> set study \<longrightarrow> ft_value t = Some u \<longrightarrow> u \<le> v))"
proof -
  from assms have "foldl better None study = Some b"
    by (auto simp: best_trial_def split: option.splits)
  from foldl_better [OF this] show ?thesis by auto
qed

lemma run_trials_Inr:
  assumes "run_trials obj (\<lambda>e. False) pick grid k unvisited finished w = Inr (res, w')"
  shows "\<exists>new. res = finished @ new \<and>
           mset (map ft_params new) \<subseteq># image_mset ((!) grid) (mset unvisited) \<and>
           (length unvisited \<le> k \<longrightarrow> mset (map ft_params new) = image_mset ((!) grid) (mset unvisited)) \<and>
           list_all (ran obj) new"
  using assms
proof (induction k arbitrary: unvisited finished w)
  case 0
  then show ?case by auto
next
  case (Suc k)
  show ?case
  proof (cases "unvisited = []")
    case True
    with Suc.prems show ?thesis by auto
  next
    case False
    define gid where "gid = unvisited ! (pick (length finished) unvisited mod length unvisited)"
    define t where "t = \<lparr>number = length finished, grid_point = grid ! gid\<rparr>"
    from False have gmem: "gid \<in> set unvisited" by (simp add: gid_def)
    from Suc.prems False obtain v w1 where
      ob: "obj t w = Inr (v, w1)" and
      rest: "run_trials obj (\<lambda>e. False) pick grid k (remove1 gid unvisited)
               (finished @ [\<lparr>ft_number = number t, ft_params = grid_point t, ft_value = Some v\<rparr>]) w1
             = Inr (res, w')"
      by (auto simp: Let_def gid_def t_def split: sum.splits)
    let ?ft = "\<lparr>ft_number = number t, ft_params = grid_point t, ft_value = Some v\<rparr>"
    from Suc.IH [OF rest] obtain new where
      r: "res = (finished @ [?ft]) @ new" and
      sub: "mset (map ft_params new) \<subseteq># image_mset ((!) grid) (mset (remove1 gid unvisited))" and
      full: "length (remove1 gid unvisited) \<le> k \<longrightarrow>
               mset (map ft_params new) = image_mset ((!) grid) (mset (remove1 gid unvisited))" and
      rn: "list_all (ran obj) new"
      by blast
    have split: "mset unvisited = add_mset gid (mset (remove1 gid unvisited))"
      using gmem by simp
    have len: "length unvisited = Suc (length (remove1 gid unvisited))"
      using gmem by (simp add: length_remove1) (cases unvisited, auto)
    have p: "grid_point t = grid ! gid" by (simp add: t_def)
    have "ran obj ?ft" unfolding ran_def using ob by (auto simp: t_def)
    with rn have a: "list_all (ran obj) (?ft # new)" by simp
    have b: "mset (map ft_params (?ft # new)) \<subseteq># image_mset ((!) grid) (mset unvisited)"
      using sub by (subst split) (simp add: p)
    have c: "length unvisited \<le> Suc k \<longrightarrow>
               mset (map ft_params (?ft # new)) = image_mset ((!) grid) (mset unvisited)"
    proof
      assume "length unvisited \<le> Suc k"
      with len full have "mset (map ft_params new) = image_mset ((!) grid) (mset (remove1 gid unvisited))"
        by simp
      then show "mset (map ft_params (?ft # new)) = image_mset ((!) grid) (mset unvisited)"
        by (subst split) (simp add: p)
    qed
    from r a b c show ?thesis by (intro exI [where x = "?ft # new"]) simp
  qed
qed

lemma study_optimize_Inr:
  assumes "study_optimize obj n (\<lambda>e. False) pick space w = Inr (study, w')"
    and "length (all_grids space) \<le> n"
  shows "mset (map ft_params study) = mset (all_grids space) \<and> list_all (ran obj) study"
proof -
  from run_trials_Inr [OF assms(1) [unfolded study_optimize_def]] assms(2)
  have "mset (map ft_params study) = image_mset ((!) (all_grids space)) (mset [0..<length (all_grids space)])"
    and "list_all (ran obj) study"
    by auto
  moreover have "image_mset ((!) (all_grids space)) (mset [0..<length (all_grids space)]) = mset (all_grids space)"
    by (metis map_nth mset_map)
  ultimately show ?thesis by simp
qed

lemma length_all_grids: "length (all_grids search_space) = 128"
  by (simp add: all_grids_def search_space_def)

lemma set_all_grids:
  "set (all_grids s) = {p. num_neurons p \<in> set (space_num_neurons s) \<and>
      embedding_size p \<in> set (space_embedding_size s) \<and> num_heads p \<in> set (space_num_heads s) \<and>
      learning_rate p \<in> set (space_learning_rate s)}"
proof (rule set_eqI)
  fix p :: hyperparams
  have "p = \<lparr>num_neurons = num_neurons p, embedding_size = embedding_size p,
             num_heads = num_heads p, learning_rate = learning_rate p\<rparr>" by simp
  then show "p \<in> set (all_grids s) \<longleftrightarrow> p \<in> {p. num_neurons p \<in> set (space_num_neurons s) \<and>
      embedding_size p \<in> set (space_embedding_size s) \<and> num_heads p \<in> set (space_num_heads s) \<and>
      learning_rate p \<in> set (space_learning_rate s)}"
    unfolding all_grids_def by (cases p) auto
qed

lemma demo_objective:
  "objective demo_env demo_globals t w =
     (if in_choices (grid_point t)
      then Inr (real_of_int (num_neurons (grid_point t)) / 200, Suc w) else Inl ValueError)"
  by (simp add: objective_def objective_data_def objective_model_args_def demo_env_def demo_globals_def
      bind_def return_def lift_def suggest_categorical_def np_where_eq1_def Let_def in_choices_def
      demo_recon_def)

lemma grid_in_choices: "p \<in> set (all_grids search_space) \<Longrightarrow> in_choices p"
  by (auto simp: set_all_grids search_space_def in_choices_def)

lemma run_trials_succeeds:
  assumes "\<And>t w. grid_point t \<in> set grid \<Longrightarrow> \<exists>v w'. obj t w = Inr (v, w')"
    and "set unvisited \<subseteq> {..<length grid}"
  shows "\<exists>res w'. run_trials obj catch pick grid k unvisited finished w = Inr (res, w')"
  using assms(2)
proof (induction k arbitrary: unvisited finished w)
  case 0
  then show ?case by simp
next
  case (Suc k)
  show ?case
  proof (cases "unvisited = []")
    case True
    then show ?thesis by simp
  next
    case False
    define gid where "gid = unvisited ! (pick (length finished) unvisited mod length unvisited)"
    define t where "t = \<lparr>number = length finished, grid_point = grid ! gid\<rparr>"
    from False have "gid \<in> set unvisited" by (simp add: gid_def)
    with Suc.prems have "gid < length grid" by auto
    then have "grid_point t \<in> set grid" by (simp add: t_def)
    from assms(1) [OF this] obtain v w1 where ob: "obj t w = Inr (v, w1)" by blast
    have sub: "set (remove1 gid unvisited) \<subseteq> {..<length grid}"
      using Suc.prems set_remove1_subset [of gid unvisited] by blast
    from Suc.IH [OF sub] obtain res w' where
      "run_trials obj catch pick grid k (remove1 gid unvisited)
         (finished @ [\<lparr>ft_number = number t, ft_params = grid_point t, ft_value = Some v\<rparr>]) w1
       = Inr (res, w')"
      by blast
    with False ob show ?thesis
      by (simp add: Let_def gid_def [symmetric] t_def [symmetric])
  qed
qed

lemma best_trial_exists:
  assumes "study \<noteq> []" and "list_all (\<lambda>t. ft_value t \<noteq> None) study"
  shows "\<exists>b. best_trial study = Inr b"
proof -
  have "foldl better acc ts \<noteq> None" if "acc \<noteq> None \<or> (ts \<noteq> [] \<and> list_all (\<lambda>t. ft_value t \<noteq> None) ts)"
    for acc ts
    using that
  proof (induction ts arbitrary: acc)
    case Nil
    then show ?case by simp
  next
    case (Cons t ts)
    have "better acc t \<noteq> None"
      using Cons.prems by (cases acc) (auto split: option.splits)
    from Cons.IH [of "better acc t"] this show ?case by simp
  qed
  from this [of None study] assms show ?thesis
    by (auto simp: best_trial_def split: option.splits)
qed

lemma objective_Inr:
  assumes "objective env g t w = Inr (v, w')"
  shows "in_choices (grid_point t) \<and>
    (\<exists>d m0 trained recon m w1 w2 w3 w4 w5.
       objective_data env g w = Inr (d, w1) \<and>
       GAT_VGAE env (objective_model_args d (grid_point t)) w1 = Inr (m0, w2) \<and>
       train_and_evaluate env m0 (edge_index d) (expr_data d) (adj_matrix d) (true_adj_matrix d)
         (NUM_EPOCHS g) (learning_rate (grid_point t)) (grid_point t) w2 = Inr (trained, w3) \<and>
       model_call env trained (edge_index d) (expr_data d) w3 = Inr (recon, w4) \<and>
       evaluate_model env (true_adj_matrix d) recon w4 = Inr (m, w5) \<and>
       log_run_info env (run_id g) (grid_point t) m (DATASET g) w5 = Inr ((), w') \<and>
       v = m_roc_auc m)"
proof -
  have hp: "\<lparr>num_neurons = num_neurons (grid_point t), embedding_size = embedding_size (grid_point t),
             num_heads = num_heads (grid_point t), learning_rate = learning_rate (grid_point t)\<rparr>
           = grid_point t" by simp
  from assms show ?thesis
    unfolding objective_def Let_def
    by (auto simp: bind_Inr return_Inr lift_Inr suggest_categorical_def in_choices_def hp
        split: if_splits)
qed

lemma select_params_tuned:
  assumes "TUNE_HYPERPARAMETERS g" and "select_params env g pick w = Inr ((st, best), w')"
  shows "\<exists>study b. st = Some study \<and>
           study_optimize (objective env g) 256 (\<lambda>e. False) pick search_space w = Inr (study, w') \<and>
           best_trial study = Inr b \<and> best = ft_params b"
  using assms
  by (auto simp: select_params_def bind_Inr return_Inr lift_Inr)

lemma ran_trained_and_scored:
  assumes "ran (objective env g) t"
  shows "trained_and_scored env g t"
proof -
  from assms obtain v w1 w2 where v: "ft_value t = Some v" and
    ob: "objective env g \<lparr>number = ft_number t, grid_point = ft_params t\<rparr> w1 = Inr (v, w2)"
    unfolding ran_def by blast
  from objective_Inr [OF ob] v show ?thesis
    unfolding trained_and_scored_def
    by (elim conjE exE) (simp, intro exI conjI; (assumption | rule refl))
qed

lemma sigmoid_range: "0 < sigmoid x \<and> sigmoid x < 1"
proof -
  have "0 < exp (- x)" by simp
  then show ?thesis by (simp add: sigmoid_def add_pos_pos)
qed

lemma uniform01_nonneg: "0 \<le> uniform01 r"
  by (simp add: uniform01_def)

lemma perturb_zero: "perturb draws 0 a = a"
proof -
  have "\<not> uniform01 r < 0" for r using uniform01_nonneg [of r] by simp
  then have "perturb draws 0 a = map (\<lambda>i. map (\<lambda>j. a ! i ! j) [0..<length (a ! i)]) [0..<length a]"
    by (simp add: perturb_def)
  also have "\<dots> = map (\<lambda>i. a ! i) [0..<length a]"
    by (simp add: map_nth)
  also have "\<dots> = a" by (rule map_nth)
  finally show ?thesis .
qed

lemma pearson_demo: "pearson [1, 2, 3] [2, 4, 6] = Some 1 \<and> pearson [2, 4, 6] [1, 2, 3] = Some 1"
proof -
  have "sqrt 2 * sqrt 8 = sqrt 16" by (simp add: real_sqrt_mult [symmetric])
  also have "\<dots> = 4" using real_sqrt_abs [of 4] by simp
  finally have "sqrt 2 * sqrt 8 = 4" .
  then show ?thesis
    by (simp add: pearson_def mean_of_def Let_def power2_eq_square mult.commute)
qed

lemma demo_adj:
  "constructAdjacency \<lparr>expr_shape = (3, 2), expr_rows = [[1, 2], [2, 4], [3, 6]]\<rparr> (1 / 2)
     = Inr [[0, 1], [1, 0]]"
proof -
  let ?x = "\<lparr>expr_shape = (3, 2), expr_rows = [[1, 2], [2, 4], [3, 6]]\<rparr>"
  have c: "column ?x 0 = [1, 2, 3]" "column ?x 1 = [2, 4, 6]" "column ?x (Suc 0) = [2, 4, 6]"
    by (simp_all add: column_def)
  have u: "[0..<2] = [0, Suc 0]" by (simp add: upt_rec)
  show ?thesis
    using pearson_demo
    by (simp add: constructAdjacency_def shape1_def correlated_def c u)
qed

lemma main_data_Inr:
  assumes "main_data env g w = Inr (d, w')"
  shows "\<exists>w1 w2.
      preprocess_data env (EXPR_FILE g) w = Inr ((expr_data d, gene_names d), w1) \<and>
      construct_adjacency_matrix_with_noise env (expr_data d) (THRESHOLD g) (NOISE_FACTOR g) w1
        = Inr (adj_matrix d, w2) \<and>
      edge_index d = np_where_eq1 (adj_matrix d) \<and>
      create_true_adjacency_matrix env (NETWORK_FILE g) (gene_names d) w2 = Inr (true_adj_matrix d, w')"
  using assms unfolding main_data_def
  by (auto simp: bind_Inr return_Inr split: prod.splits)

lemma demo_fixed_main: "main demo_env demo_fixed pick w = Inr (demo_final, w)"
  by (simp add: main_def select_params_def main_data_def main_model_args_def main_pcc_def
      demo_env_def demo_fixed_def demo_globals_def demo_final_def demo_data_def demo_args_def
      bind_def return_def lift_def np_where_eq1_def DROPOUT_def shape0_def shape1_def
      final_accuracy_def flatten_def accuracy_score_def binarize_def Let_def demo_expr_def
      demo_recon_def)

lemma objective_data_Inl:
  "objective_data env g w = Inl e \<longleftrightarrow>
     preprocess_data env (EXPR_FILE g) w = Inl e \<or>
     (\<exists>expr names w1. preprocess_data env (EXPR_FILE g) w = Inr ((expr, names), w1) \<and>
        (construct_adjacency_matrix_with_noise env expr (THRESHOLD g) (NOISE_FACTOR g) w1 = Inl e \<or>
         (\<exists>adj w2.
            construct_adjacency_matrix_with_noise env expr (THRESHOLD g) (NOISE_FACTOR g) w1
              = Inr (adj, w2) \<and>
            create_true_adjacency_matrix env (NETWORK_FILE g) names w2 = Inl e)))"
  unfolding objective_data_def
  by (simp add: bind_Inl return_Inl return_Inr)

lemma main_data_Inl:
  "main_data env g w = Inl e \<longleftrightarrow>
     preprocess_data env (EXPR_FILE g) w = Inl e \<or>
     (\<exists>expr names w1. preprocess_data env (EXPR_FILE g) w = Inr ((expr, names), w1) \<and>
        (construct_adjacency_matrix_with_noise env expr (THRESHOLD g) (NOISE_FACTOR g) w1 = Inl e \<or>
         (\<exists>adj w2.
            construct_adjacency_matrix_with_noise env expr (THRESHOLD g) (NOISE_FACTOR g) w1
              = Inr (adj, w2) \<and>
            create_true_adjacency_matrix env (NETWORK_FILE g) names w2 = Inl e)))"
  unfolding main_data_def
  by (simp add: bind_Inl return_Inl return_Inr)

lemma objective_not_in_choices:
  "\<not> in_choices (grid_point t) \<Longrightarrow> objective env g t w = Inl ValueError"
  unfolding objective_def
  by (auto simp: bind_def lift_def suggest_categorical_def in_choices_def)

lemma objective_Inl:
  "objective env g t w = Inl e \<longleftrightarrow>
     (\<not> in_choices (grid_point t) \<and> e = ValueError) \<or>
     (in_choices (grid_point t) \<and>
       (objective_data env g w = Inl e \<or>
       (\<exists>d w1. objective_data env g w = Inr (d, w1) \<and>
         (GAT_VGAE env (objective_model_args d (grid_point t)) w1 = Inl e \<or>
         (\<exists>m0 w2. GAT_VGAE env (objective_model_args d (grid_point t)) w1 = Inr (m0, w2) \<and>
           (train_and_evaluate env m0 (edge_index d) (expr_data d) (adj_matrix d)
              (true_adj_matrix d) (NUM_EPOCHS g) (learning_rate (grid_point t)) (grid_point t) w2
              = Inl e \<or>
           (\<exists>trained w3.
              train_and_evaluate env m0 (edge_index d) (expr_data d) (adj_matrix d)
                (true_adj_matrix d) (NUM_EPOCHS g) (learning_rate (grid_point t)) (grid_point t) w2
                = Inr (trained, w3) \<and>
             (model_call env trained (edge_index d) (expr_data d) w3 = Inl e \<or>
             (\<exists>recon w4. model_call env trained (edge_index d) (expr_data d) w3 = Inr (recon, w4) \<and>
               (evaluate_model env (true_adj_matrix d) recon w4 = Inl e \<or>
               (\<exists>m w5. evaluate_model env (true_adj_matrix d) recon w4 = Inr (m, w5) \<and>
                  log_run_info env (run_id g) (grid_point t) m (DATASET g) w5 = Inl e)))))))))))"
proof (cases "in_choices (grid_point t)")
  case False
  then show ?thesis by (auto simp: objective_not_in_choices)
next
  case True
  have hp: "\<lparr>num_neurons = num_neurons (grid_point t), embedding_size = embedding_size (grid_point t),
             num_heads = num_heads (grid_point t), learning_rate = learning_rate (grid_point t)\<rparr>
           = grid_point t" by simp
  from True have sg:
    "lift (suggest_categorical t num_neurons [16, 32, 64, 128]) = return (num_neurons (grid_point t))"
    "lift (suggest_categorical t embedding_size [8, 16, 32, 64]) = return (embedding_size (grid_point t))"
    "lift (suggest_categorical t num_heads [2, 4, 8, 16]) = return (num_heads (grid_point t))"
    "lift (suggest_categorical t learning_rate [0.001, 0.0001, 0.005, 0.0005])
       = return (learning_rate (grid_point t))"
    by (simp_all add: suggest_categorical_def in_choices_def lift_def return_def fun_eq_iff)
  show ?thesis
    unfolding objective_def Let_def sg
    by (simp add: bind_Inl return_Inr return_Inl hp True)
qed

lemma run_trials_Inl:
  "run_trials obj (\<lambda>e. False) pick grid (Suc k) unvisited finished w = Inl e \<longleftrightarrow>
     unvisited \<noteq> [] \<and>
     (let gid = unvisited ! (pick (length finished) unvisited mod length unvisited);
          t = \<lparr>number = length finished, grid_point = grid ! gid\<rparr>
      in obj t w = Inl e \<or>
         (\<exists>v w1. obj t w = Inr (v, w1) \<and>
            run_trials obj (\<lambda>e. False) pick grid k (remove1 gid unvisited)
              (finished @ [\<lparr>ft_number = number t, ft_params = grid_point t, ft_value = Some v\<rparr>]) w1
            = Inl e))"
  by (auto simp: Let_def split: sum.splits)

lemma select_params_Inl:
  "select_params env g pick w = Inl e \<longleftrightarrow>
     TUNE_HYPERPARAMETERS g \<and>
     (study_optimize (objective env g) 256 (\<lambda>e. False) pick search_space w = Inl e \<or>
      (\<exists>study w1.
         study_optimize (objective env g) 256 (\<lambda>e. False) pick search_space w = Inr (study, w1) \<and>
         best_trial study = Inl e))"
  unfolding select_params_def
  by (simp add: bind_Inl lift_Inl return_Inl)

lemma main_Inl:
  "main env g pick w = Inl e \<longleftrightarrow>
     select_params env g pick w = Inl e \<or>
     (\<exists>study best w0. select_params env g pick w = Inr ((study, best), w0) \<and>
       (main_data env g w0 = Inl e \<or>
       (\<exists>d w1. main_data env g w0 = Inr (d, w1) \<and>
         (GAT_VGAE env (main_model_args g d best) w1 = Inl e \<or>
         (\<exists>model0 w2. GAT_VGAE env (main_model_args g d best) w1 = Inr (model0, w2) \<and>
           (train_and_evaluate env model0 (edge_index d) (expr_data d) (adj_matrix d)
              (true_adj_matrix d) (NUM_EPOCHS g) (learning_rate best) best w2 = Inl e \<or>
           (\<exists>trained w3.
              train_and_evaluate env model0 (edge_index d) (expr_data d) (adj_matrix d)
                (true_adj_matrix d) (NUM_EPOCHS g) (learning_rate best) best w2 = Inr (trained, w3) \<and>
             (model_call env trained (edge_index d) (expr_data d) w3 = Inl e \<or>
             (\<exists>recon w4. model_call env trained (edge_index d) (expr_data d) w3 = Inr (recon, w4) \<and>
               (evaluate_model env (true_adj_matrix d) recon w4 = Inl e \<or>
               (\<exists>m w5. evaluate_model env (true_adj_matrix d) recon w4 = Inr (m, w5) \<and>
                 (final_accuracy (true_adj_matrix d) recon = Inl e \<or>
                 (\<exists>acc. final_accuracy (true_adj_matrix d) recon = Inr acc \<and>
                   (calculate_early_precision_rate env recon (true_adj_matrix d) w5 = Inl e \<or>
                   (\<exists>epr w6.
                      calculate_early_precision_rate env recon (true_adj_matrix d) w5 = Inr (epr, w6) \<and>
                     (construct_adjacency_matrix env (expr_data d) (THRESHOLD g) w6 = Inl e \<or>
                     (\<exists>pcc w7.
                        construct_adjacency_matrix env (expr_data d) (THRESHOLD g) w6 = Inr (pcc, w7) \<and>
                        calculate_whole_network_overlap env recon (true_adj_matrix d) pcc w7
                          = Inl e)))))))))))))))))"
  unfolding main_def main_pcc_def
  by (simp add: bind_Inl lift_Inl lift_Inr return_Inl)

lemma demo_tuned_main: "\<exists>fin w'. main demo_env demo_globals pick w = Inr (fin, w')"
proof -
  let ?obj = "objective demo_env demo_globals"
  have ob: "\<exists>v w'. ?obj t w = Inr (v, w')" if "grid_point t \<in> set (all_grids search_space)" for t w
  proof -
    from grid_in_choices [OF that]
    have "?obj t w = Inr (real_of_int (num_neurons (grid_point t)) / 200, Suc w)"
      by (simp add: demo_objective)
    then show ?thesis by blast
  qed
  have "set [0..<length (all_grids search_space)] \<subseteq> {..<length (all_grids search_space)}"
    by auto
  from run_trials_succeeds [of "all_grids search_space" ?obj, OF ob this]
  obtain study w1 where
    opt: "study_optimize ?obj 256 (\<lambda>e. False) pick search_space w = Inr (study, w1)"
    unfolding study_optimize_def by blast
  have "length (all_grids search_space) \<le> 256" by (simp add: length_all_grids)
  from study_optimize_Inr [OF opt this] have
    ms: "mset (map ft_params study) = mset (all_grids search_space)" and
    rn: "list_all (ran ?obj) study"
    by simp_all
  from ms have "length (map ft_params study) = length (all_grids search_space)"
    by (rule mset_eq_length)
  then have ne: "study \<noteq> []" by (auto simp: length_all_grids)
  from rn have "list_all (\<lambda>t. ft_value t \<noteq> None) study"
    by (auto simp: list_all_iff ran_def)
  from best_trial_exists [OF ne this] obtain b where bt: "best_trial study = Inr b" ..
  have sel: "select_params demo_env demo_globals pick w = Inr ((Some study, ft_params b), w1)"
    using opt bt
    by (simp add: select_params_def bind_def return_def lift_def)
       (simp add: demo_globals_def)
  show ?thesis
    unfolding main_def
    by (simp add: bind_def sel)
       (simp add: main_data_def main_model_args_def main_pcc_def demo_env_def demo_recon_def
          bind_def return_def lift_def final_accuracy_def flatten_def accuracy_score_def Let_def)
qed

subsection \<open>The claims\<close>

text \<open>
  C1. In tuning mode every trial's hyperparameters come from the declared search space,
  every combination of the grid is visited (exactly once, 128 trials within the 256
  allowed, in the order the sampler picks), each trial's value is the ROC-AUC that
  \<^verbatim>\<open>evaluate_model\<close> returned for the reconstruction of the model constructed with
  that trial's hyperparameters and trained, and \<^verbatim>\<open>best_params\<close> is the parameter
  set of a trial whose value is maximal over all trials.
\<close>

theorem grid_search_exhaustive_and_best:
  assumes "TUNE_HYPERPARAMETERS g" and "main env g pick w = Inr (fin, w')"
  shows "\<exists>study best.
      study_trials fin = Some study \<and>
      mset (map ft_params study) = mset (all_grids search_space) \<and>
      length study = 128 \<and>
      set (map ft_params study) =
        {p. num_neurons p \<in> {16, 32, 64, 128} \<and> embedding_size p \<in> {8, 16, 32, 64} \<and>
            num_heads p \<in> {2, 4, 8, 16} \<and> learning_rate p \<in> {0.001, 0.0005}} \<and>
      list_all (ran (objective env g)) study \<and>
      list_all (trained_and_scored env g) study \<and>
      best \<in> set study \<and> best_params fin = ft_params best \<and>
      (\<exists>v. ft_value best = Some v \<and> (\<forall>t \<in> set study. \<forall>u. ft_value t = Some u \<longrightarrow> u \<le> v))"
proof -
  from assms(2) obtain w0 where
    "select_params env g pick w = Inr ((study_trials fin, best_params fin), w0)"
    by (rule main_InrE)
  from select_params_tuned [OF assms(1) this] obtain study b where
    st: "study_trials fin = Some study" and
    opt: "study_optimize (objective env g) 256 (\<lambda>e. False) pick search_space w = Inr (study, w0)" and
    bt: "best_trial study = Inr b" and bp: "best_params fin = ft_params b"
    by blast
  have "length (all_grids search_space) \<le> 256" by (simp add: length_all_grids)
  from study_optimize_Inr [OF opt this] have
    ms: "mset (map ft_params study) = mset (all_grids search_space)" and
    rn: "list_all (ran (objective env g)) study"
    by simp_all
  from ms have "length (map ft_params study) = length (all_grids search_space)"
    by (rule mset_eq_length)
  then have len: "length study = 128" by (simp add: length_all_grids)
  from ms have "set (map ft_params study) = set (all_grids search_space)"
    by (rule mset_eq_setD)
  then have sets: "set (map ft_params study) =
        {p. num_neurons p \<in> {16, 32, 64, 128} \<and> embedding_size p \<in> {8, 16, 32, 64} \<and>
            num_heads p \<in> {2, 4, 8, 16} \<and> learning_rate p \<in> {0.001, 0.0005}}"
    by (simp only: set_all_grids search_space_def grid_space.select_convs list.set)
  from rn have sc: "list_all (trained_and_scored env g) study"
    by (auto simp: list_all_iff intro: ran_trained_and_scored)
  from best_trial_max [OF bt] obtain v where
    mem: "b \<in> set study" and bv: "ft_value b = Some v" and
    mx: "\<forall>t u. t \<in> set study \<longrightarrow> ft_value t = Some u \<longrightarrow> u \<le> v"
    by blast
  from bv mx have best: "\<exists>v. ft_value b = Some v \<and> (\<forall>t \<in> set study. \<forall>u. ft_value t = Some u \<longrightarrow> u \<le> v)"
    by blast
  show ?thesis
    by (rule exI [where x = study], rule exI [where x = b]) (intro conjI st ms len sets rn sc mem bp best)
qed

text \<open>In the small run the search visits 128 grid points and settles on 128 neurons, the
  value with the highest ROC-AUC of the trained model (an untrained model would score 0
  in every trial).\<close>

theorem grid_search_exhaustive_and_best_witness:
  "\<exists>fin w'. TUNE_HYPERPARAMETERS demo_globals \<and>
      main demo_env demo_globals (\<lambda>k u. 0) 0 = Inr (fin, w') \<and>
      (\<exists>study. study_trials fin = Some study \<and> length study = 128) \<and>
      num_neurons (best_params fin) = 128"
proof -
  let ?obj = "objective demo_env demo_globals"
  have tune: "TUNE_HYPERPARAMETERS demo_globals" by (simp add: demo_globals_def)
  from demo_tuned_main obtain fin w' where
    run: "main demo_env demo_globals (\<lambda>k u. 0) 0 = Inr (fin, w')" by blast
  from grid_search_exhaustive_and_best [OF tune run] obtain study best v where
    st: "study_trials fin = Some study" and len: "length study = 128" and
    sets: "set (map ft_params study) =
        {p. num_neurons p \<in> {16, 32, 64, 128} \<and> embedding_size p \<in> {8, 16, 32, 64} \<and>
            num_heads p \<in> {2, 4, 8, 16} \<and> learning_rate p \<in> {0.001, 0.0005}}" and
    sc: "list_all (trained_and_scored demo_env demo_globals) study" and
    mem: "best \<in> set study" and bp: "best_params fin = ft_params best" and
    bv: "ft_value best = Some v" and
    mx: "\<forall>t \<in> set study. \<forall>u. ft_value t = Some u \<longrightarrow> u \<le> v"
    by blast
  have val: "ft_value t = Some (real_of_int (num_neurons (ft_params t)) / 200)" if "t \<in> set study" for t
  proof -
    from sc that have "trained_and_scored demo_env demo_globals t" by (simp add: list_all_iff)
    then obtain d m0 trained recon m w1 w2 w3 w4 w5 where
      gv: "GAT_VGAE demo_env (objective_model_args d (ft_params t)) w1 = Inr (m0, w2)" and
      tr: "train_and_evaluate demo_env m0 (edge_index d) (expr_data d) (adj_matrix d)
             (true_adj_matrix d) (NUM_EPOCHS demo_globals) (learning_rate (ft_params t))
             (ft_params t) w2 = Inr (trained, w3)" and
      mc: "model_call demo_env trained (edge_index d) (expr_data d) w3 = Inr (recon, w4)" and
      ev: "evaluate_model demo_env (true_adj_matrix d) recon w4 = Inr (m, w5)" and
      fv: "ft_value t = Some (m_roc_auc m)"
      unfolding trained_and_scored_def by blast
    from gv have m0: "m0 = (objective_model_args d (ft_params t), 0)"
      by (simp add: demo_env_def return_def)
    from tr have "trained = (fst m0, snd m0 + 1)"
      by (simp add: demo_env_def demo_globals_def return_def)
    with m0 have "trained = (objective_model_args d (ft_params t), 1)" by simp
    with mc have "recon = demo_recon (objective_model_args d (ft_params t), 1)"
      by (simp add: demo_env_def return_def)
    with ev have "m_roc_auc m = real_of_int (num_neurons (ft_params t)) / 200"
      by (auto simp: demo_env_def return_def demo_recon_def objective_model_args_def)
    with fv show ?thesis by simp
  qed
  let ?top = "\<lparr>num_neurons = 128, embedding_size = 8, num_heads = 2, learning_rate = 0.001\<rparr>"
  have "?top \<in> set (map ft_params study)" unfolding sets by simp
  then obtain t where t: "t \<in> set study" "ft_params t = ?top" by auto
  from val [OF t(1)] t(2) have "ft_value t = Some (128 / 200)" by simp
  with mx t(1) have "128 / 200 \<le> v" by blast
  moreover from val [OF mem] bv have "v = real_of_int (num_neurons (ft_params best)) / 200" by simp
  ultimately have ge: "128 \<le> num_neurons (ft_params best)" by simp
  from mem have "ft_params best \<in> set (map ft_params study)" by simp
  then have "num_neurons (ft_params best) \<in> {16, 32, 64, 128}" unfolding sets by simp
  with ge have "num_neurons (ft_params best) = 128" by auto
  with tune run st len bp show ?thesis by auto
qed

text \<open>
  C2. The preprocessing block of the objective (lines 62 to 67) and that of the final run
  (lines 127 to 132) are the same function of the configuration and the state of the world
  (which holds the random source): the same calls, in the same order, with
  \<^verbatim>\<open>EXPR_FILE\<close>, \<^verbatim>\<open>THRESHOLD\<close>, \<^verbatim>\<open>NOISE_FACTOR\<close> and \<^verbatim>\<open>NETWORK_FILE\<close>.
\<close>

theorem data_blocks_equal: "objective_data env g = main_data env g"
  by (simp add: objective_data_def main_data_def)

text \<open>
  C3. The edge index lists, in row-major order, exactly the positions of the adjacency
  matrix whose entry is 1; a pair occurs in it if and only if the entry there is 1; and both
  the objective and the final run compute it from the adjacency matrix they have just
  constructed and hand that edge index to the model.
\<close>

theorem edge_index_from_adjacency:
  "edge_pairs (np_where_eq1 adj) = filter (\<lambda>(i, j). adj ! i ! j = 1) (positions adj) \<and>
   ((i, j) \<in> set (edge_pairs (np_where_eq1 adj))
      \<longleftrightarrow> i < length adj \<and> j < length (adj ! i) \<and> adj ! i ! j = 1) \<and>
   (objective_data env g w = Inr (d, w1) \<longrightarrow> edge_index d = np_where_eq1 (adj_matrix d)) \<and>
   (objective env g t w = Inr (v, w2) \<longrightarrow>
      (\<exists>d' trained recon wa wb wc.
         objective_data env g w = Inr (d', wa) \<and>
         model_call env trained (np_where_eq1 (adj_matrix d')) (expr_data d') wb = Inr (recon, wc))) \<and>
   (main env g pick w = Inr (fin, w3) \<longrightarrow>
      edge_index (prepared fin) = np_where_eq1 (adj_matrix (prepared fin)) \<and>
      (\<exists>wa wb. model_call env (model fin) (np_where_eq1 (adj_matrix (prepared fin)))
                  (expr_data (prepared fin)) wa = Inr (reconstructed_adjacency fin, wb)))"
proof (intro conjI impI)
  show eq: "edge_pairs (np_where_eq1 adj) = filter (\<lambda>(i, j). adj ! i ! j = 1) (positions adj)"
    by (simp add: edge_pairs_np_where where_rows_positions)
  show "(i, j) \<in> set (edge_pairs (np_where_eq1 adj))
      \<longleftrightarrow> i < length adj \<and> j < length (adj ! i) \<and> adj ! i ! j = 1"
    unfolding eq by (auto simp: set_positions)
next
  assume "objective_data env g w = Inr (d, w1)"
  then show "edge_index d = np_where_eq1 (adj_matrix d)"
    by (rule objective_data_edge_index)
next
  assume "objective env g t w = Inr (v, w2)"
  from objective_Inr [OF this] obtain d' trained recon wa wb wc where
    od: "objective_data env g w = Inr (d', wa)" and
    mc: "model_call env trained (edge_index d') (expr_data d') wb = Inr (recon, wc)"
    by (elim conjE exE)
  from objective_data_edge_index [OF od] mc od
  show "\<exists>d' trained recon wa wb wc.
         objective_data env g w = Inr (d', wa) \<and>
         model_call env trained (np_where_eq1 (adj_matrix d')) (expr_data d') wb = Inr (recon, wc)"
    by auto
next
  assume run: "main env g pick w = Inr (fin, w3)"
  from run obtain w0 wa wb wc where
    md: "main_data env g w0 = Inr (prepared fin, wa)" and
    mc: "model_call env (model fin) (edge_index (prepared fin)) (expr_data (prepared fin)) wb
           = Inr (reconstructed_adjacency fin, wc)"
    by (rule main_InrE)
  from main_data_edge_index [OF md]
  show e: "edge_index (prepared fin) = np_where_eq1 (adj_matrix (prepared fin))" .
  from mc show "\<exists>wa wb. model_call env (model fin) (np_where_eq1 (adj_matrix (prepared fin)))
                  (expr_data (prepared fin)) wa = Inr (reconstructed_adjacency fin, wb)"
    unfolding e by blast
qed

theorem edge_index_from_adjacency_witness:
  "edge_pairs (np_where_eq1 [[0, 1, 0], [1, 0, 1], [0, 1, 0]]) = [(0, 1), (1, 0), (1, 2), (2, 1)] \<and>
   (1, 2) \<in> set (edge_pairs (np_where_eq1 [[0, 1, 0], [1, 0, 1], [0, 1, 0]])) \<and>
   (2, 2) \<notin> set (edge_pairs (np_where_eq1 [[0, 1, 0], [1, 0, 1], [0, 1, 0]])) \<and>
   main demo_env demo_fixed (\<lambda>k u. 0) 0 = Inr (demo_final, 0) \<and>
   edge_index (prepared demo_final) = np_where_eq1 (adj_matrix (prepared demo_final)) \<and>
   objective_data demo_env demo_fixed 0 = Inr (demo_data, 0) \<and>
   edge_index demo_data = np_where_eq1 (adj_matrix demo_data) \<and>
   objective demo_env demo_globals \<lparr>number = 0, grid_point = all_grids search_space ! 0\<rparr> 0
     = Inr (2 / 25, 1) \<and>
   (\<exists>d trained recon wa wb wc.
      objective_data demo_env demo_globals 0 = Inr (d, wa) \<and>
      model_call demo_env trained (np_where_eq1 (adj_matrix d)) (expr_data d) wb = Inr (recon, wc))"
proof -
  let ?a = "[[0, 1, 0], [1, 0, 1], [0, 1, 0]] :: adjacency"
  let ?t0 = "\<lparr>number = 0, grid_point = all_grids search_space ! 0\<rparr>"
  have g0: "all_grids search_space ! 0
      = \<lparr>num_neurons = 16, embedding_size = 8, num_heads = 2, learning_rate = 0.001\<rparr>"
    by (simp add: all_grids_def search_space_def)
  have ob: "objective demo_env demo_globals ?t0 0 = Inr (2 / 25, 1)"
    by (simp add: demo_objective g0 in_choices_def)
  have ex: "\<exists>d trained recon wa wb wc.
      objective_data demo_env demo_globals 0 = Inr (d, wa) \<and>
      model_call demo_env trained (np_where_eq1 (adj_matrix d)) (expr_data d) wb = Inr (recon, wc)"
    by (rule edge_index_from_adjacency [THEN conjunct2, THEN conjunct2, THEN conjunct2,
          THEN conjunct1, rule_format, OF ob])
  have run: "main demo_env demo_fixed (\<lambda>k u. 0) 0 = Inr (demo_final, 0)"
    by (rule demo_fixed_main)
  have od: "objective_data demo_env demo_fixed 0 = Inr (demo_data, 0)"
    by (simp add: objective_data_def demo_env_def demo_data_def bind_def return_def np_where_eq1_def)
  note t = edge_index_from_adjacency [where env = demo_env and g = demo_fixed and w = 0
      and fin = demo_final and ?w3.0 = 0 and pick = "\<lambda>k u. 0" and d = demo_data and ?w1.0 = 0]
  from t [where adj = ?a and i = 1 and j = 2]
  have "(1, 2) \<in> set (edge_pairs (np_where_eq1 ?a)) \<longleftrightarrow> 1 < length ?a \<and> 2 < length (?a ! 1) \<and> ?a ! 1 ! 2 = 1"
    by blast
  then have "(1, 2) \<in> set (edge_pairs (np_where_eq1 ?a))" by simp
  moreover from t [where adj = ?a and i = 2 and j = 2]
  have "(2, 2) \<in> set (edge_pairs (np_where_eq1 ?a)) \<longleftrightarrow> 2 < length ?a \<and> 2 < length (?a ! 2) \<and> ?a ! 2 ! 2 = 1"
    by blast
  then have "(2, 2) \<notin> set (edge_pairs (np_where_eq1 ?a))" by simp
  moreover note this
  moreover have "edge_pairs (np_where_eq1 ?a) = [(0, 1), (1, 0), (1, 2), (2, 1)]"
    by (simp add: edge_pairs_def np_where_eq1_def)
  moreover from t run have "edge_index (prepared demo_final) = np_where_eq1 (adj_matrix (prepared demo_final))"
    by blast
  moreover from t od have "edge_index demo_data = np_where_eq1 (adj_matrix demo_data)"
    by blast
  ultimately show ?thesis using run od ob ex by blast
qed



text \<open>
  C5. In a final run that completes, the baseline handed to the whole-network comparison
  is the result of \<^verbatim>\<open>construct_adjacency_matrix\<close> (not the noisy constructor) on the
  expression data and the threshold that the training adjacency was built from, and the
  call that builds it does not depend on the noise factor.
\<close>

theorem pcc_baseline_without_noise:
  assumes "main env g pick w = Inr (fin, w')"
  shows "(\<exists>wa wb wc.
            preprocess_data env (EXPR_FILE g) wa
              = Inr ((expr_data (prepared fin), gene_names (prepared fin)), wb) \<and>
            construct_adjacency_matrix_with_noise env (expr_data (prepared fin)) (THRESHOLD g)
              (NOISE_FACTOR g) wb = Inr (adj_matrix (prepared fin), wc)) \<and>
         (\<exists>wd we.
            construct_adjacency_matrix env (expr_data (prepared fin)) (THRESHOLD g) wd
              = Inr (pcc_matrix fin, we) \<and>
            calculate_whole_network_overlap env (reconstructed_adjacency fin)
              (true_adj_matrix (prepared fin)) (pcc_matrix fin) we
              = Inr ((pcc_overlap fin, pred_overlap fin), w')) \<and>
         main_pcc env (g\<lparr>NOISE_FACTOR := nf\<rparr>) (prepared fin) = main_pcc env g (prepared fin)"
proof (intro conjI)
  from assms obtain w0 w1 w6 w7 where
    md: "main_data env g w0 = Inr (prepared fin, w1)" and
    pc: "construct_adjacency_matrix env (expr_data (prepared fin)) (THRESHOLD g) w6
           = Inr (pcc_matrix fin, w7)" and
    ov: "calculate_whole_network_overlap env (reconstructed_adjacency fin)
           (true_adj_matrix (prepared fin)) (pcc_matrix fin) w7
           = Inr ((pcc_overlap fin, pred_overlap fin), w')"
    by (rule main_InrE)
  from main_data_Inr [OF md]
  show "\<exists>wa wb wc.
            preprocess_data env (EXPR_FILE g) wa
              = Inr ((expr_data (prepared fin), gene_names (prepared fin)), wb) \<and>
            construct_adjacency_matrix_with_noise env (expr_data (prepared fin)) (THRESHOLD g)
              (NOISE_FACTOR g) wb = Inr (adj_matrix (prepared fin), wc)"
    by blast
  from pc ov
  show "\<exists>wd we.
            construct_adjacency_matrix env (expr_data (prepared fin)) (THRESHOLD g) wd
              = Inr (pcc_matrix fin, we) \<and>
            calculate_whole_network_overlap env (reconstructed_adjacency fin)
              (true_adj_matrix (prepared fin)) (pcc_matrix fin) we
              = Inr ((pcc_overlap fin, pred_overlap fin), w')"
    by blast
  show "main_pcc env (g\<lparr>NOISE_FACTOR := nf\<rparr>) (prepared fin) = main_pcc env g (prepared fin)"
    by (simp add: main_pcc_def)
qed

theorem pcc_baseline_without_noise_witness:
  "main demo_env demo_fixed (\<lambda>k u. 0) 0 = Inr (demo_final, 0) \<and>
   construct_adjacency_matrix demo_env (expr_data (prepared demo_final)) (THRESHOLD demo_fixed) 0
     = Inr (pcc_matrix demo_final, 0) \<and>
   pcc_matrix demo_final = [[0, 1, 0], [1, 0, 0], [0, 0, 0]] \<and>
   adj_matrix (prepared demo_final) = [[0, 1, 0], [1, 0, 1], [0, 1, 0]] \<and>
   main_pcc demo_env (demo_fixed\<lparr>NOISE_FACTOR := 1\<rparr>) (prepared demo_final)
     = main_pcc demo_env demo_fixed (prepared demo_final)"
proof -
  have run: "main demo_env demo_fixed (\<lambda>k u. 0) 0 = Inr (demo_final, 0)"
    by (rule demo_fixed_main)
  from pcc_baseline_without_noise [OF run, of 1] obtain wd we where
    "construct_adjacency_matrix demo_env (expr_data (prepared demo_final)) (THRESHOLD demo_fixed) wd
       = Inr (pcc_matrix demo_final, we)" and
    ind: "main_pcc demo_env (demo_fixed\<lparr>NOISE_FACTOR := 1\<rparr>) (prepared demo_final)
       = main_pcc demo_env demo_fixed (prepared demo_final)"
    by blast
  have "construct_adjacency_matrix demo_env (expr_data (prepared demo_final)) (THRESHOLD demo_fixed) 0
       = Inr (pcc_matrix demo_final, 0)"
    by (simp add: demo_env_def demo_final_def return_def)
  with run ind show ?thesis by (simp add: demo_final_def demo_data_def)
qed

text \<open>
  C6. Neither the objective nor the main block handles an error, and the search is started
  with a \<^verbatim>\<open>catch\<close> that accepts none. Each of them ends in an error \<open>e\<close> exactly when
  the first of its steps that fails, fails with \<open>e\<close>: this holds for every call of the
  preprocessing blocks, of the objective and of the main block, for every trial of the
  search, and for the selection of the best trial. A main block that returns has the
  metrics that its calls returned.
\<close>

theorem errors_propagate:
  "(objective_data env g w = Inl e \<longleftrightarrow>
     preprocess_data env (EXPR_FILE g) w = Inl e \<or>
     (\<exists>expr names w1. preprocess_data env (EXPR_FILE g) w = Inr ((expr, names), w1) \<and>
        (construct_adjacency_matrix_with_noise env expr (THRESHOLD g) (NOISE_FACTOR g) w1 = Inl e \<or>
         (\<exists>adj w2.
            construct_adjacency_matrix_with_noise env expr (THRESHOLD g) (NOISE_FACTOR g) w1
              = Inr (adj, w2) \<and>
            create_true_adjacency_matrix env (NETWORK_FILE g) names w2 = Inl e)))) \<and>
   (objective env g t w = Inl e \<longleftrightarrow>
     (\<not> in_choices (grid_point t) \<and> e = ValueError) \<or>
     (in_choices (grid_point t) \<and>
       (objective_data env g w = Inl e \<or>
       (\<exists>d w1. objective_data env g w = Inr (d, w1) \<and>
         (GAT_VGAE env (objective_model_args d (grid_point t)) w1 = Inl e \<or>
         (\<exists>m0 w2. GAT_VGAE env (objective_model_args d (grid_point t)) w1 = Inr (m0, w2) \<and>
           (train_and_evaluate env m0 (edge_index d) (expr_data d) (adj_matrix d)
              (true_adj_matrix d) (NUM_EPOCHS g) (learning_rate (grid_point t)) (grid_point t) w2
              = Inl e \<or>
           (\<exists>trained w3.
              train_and_evaluate env m0 (edge_index d) (expr_data d) (adj_matrix d)
                (true_adj_matrix d) (NUM_EPOCHS g) (learning_rate (grid_point t)) (grid_point t) w2
                = Inr (trained, w3) \<and>
             (model_call env trained (edge_index d) (expr_data d) w3 = Inl e \<or>
             (\<exists>recon w4. model_call env trained (edge_index d) (expr_data d) w3 = Inr (recon, w4) \<and>
               (evaluate_model env (true_adj_matrix d) recon w4 = Inl e \<or>
               (\<exists>m w5. evaluate_model env (true_adj_matrix d) recon w4 = Inr (m, w5) \<and>
                  log_run_info env (run_id g) (grid_point t) m (DATASET g) w5 = Inl e)))))))))))) \<and>
   run_trials obj (\<lambda>e. False) pick grid 0 unvisited finished w \<noteq> Inl e \<and>
   (run_trials obj (\<lambda>e. False) pick grid (Suc k) unvisited finished w = Inl e \<longleftrightarrow>
     unvisited \<noteq> [] \<and>
     (let gid = unvisited ! (pick (length finished) unvisited mod length unvisited);
          t = \<lparr>number = length finished, grid_point = grid ! gid\<rparr>
      in obj t w = Inl e \<or>
         (\<exists>v w1. obj t w = Inr (v, w1) \<and>
            run_trials obj (\<lambda>e. False) pick grid k (remove1 gid unvisited)
              (finished @ [\<lparr>ft_number = number t, ft_params = grid_point t, ft_value = Some v\<rparr>]) w1
            = Inl e))) \<and>
   (select_params env g pick w = Inl e \<longleftrightarrow>
     TUNE_HYPERPARAMETERS g \<and>
     (study_optimize (objective env g) 256 (\<lambda>e. False) pick search_space w = Inl e \<or>
      (\<exists>study w1.
         study_optimize (objective env g) 256 (\<lambda>e. False) pick search_space w = Inr (study, w1) \<and>
         best_trial study = Inl e))) \<and>
   (main_data env g w = Inl e \<longleftrightarrow>
     preprocess_data env (EXPR_FILE g) w = Inl e \<or>
     (\<exists>expr names w1. preprocess_data env (EXPR_FILE g) w = Inr ((expr, names), w1) \<and>
        (construct_adjacency_matrix_with_noise env expr (THRESHOLD g) (NOISE_FACTOR g) w1 = Inl e \<or>
         (\<exists>adj w2.
            construct_adjacency_matrix_with_noise env expr (THRESHOLD g) (NOISE_FACTOR g) w1
              = Inr (adj, w2) \<and>
            create_true_adjacency_matrix env (NETWORK_FILE g) names w2 = Inl e)))) \<and>
   (main env g pick w = Inl e \<longleftrightarrow>
     select_params env g pick w = Inl e \<or>
     (\<exists>study best w0. select_params env g pick w = Inr ((study, best), w0) \<and>
       (main_data env g w0 = Inl e \<or>
       (\<exists>d w1. main_data env g w0 = Inr (d, w1) \<and>
         (GAT_VGAE env (main_model_args g d best) w1 = Inl e \<or>
         (\<exists>model0 w2. GAT_VGAE env (main_model_args g d best) w1 = Inr (model0, w2) \<and>
           (train_and_evaluate env model0 (edge_index d) (expr_data d) (adj_matrix d)
              (true_adj_matrix d) (NUM_EPOCHS g) (learning_rate best) best w2 = Inl e \<or>
           (\<exists>trained w3.
              train_and_evaluate env model0 (edge_index d) (expr_data d) (adj_matrix d)
                (true_adj_matrix d) (NUM_EPOCHS g) (learning_rate best) best w2 = Inr (trained, w3) \<and>
             (model_call env trained (edge_index d) (expr_data d) w3 = Inl e \<or>
             (\<exists>recon w4. model_call env trained (edge_index d) (expr_data d) w3 = Inr (recon, w4) \<and>
               (evaluate_model env (true_adj_matrix d) recon w4 = Inl e \<or>
               (\<exists>m w5. evaluate_model env (true_adj_matrix d) recon w4 = Inr (m, w5) \<and>
                 (final_accuracy (true_adj_matrix d) recon = Inl e \<or>
                 (\<exists>acc. final_accuracy (true_adj_matrix d) recon = Inr acc \<and>
                   (calculate_early_precision_rate env recon (true_adj_matrix d) w5 = Inl e \<or>
                   (\<exists>epr w6.
                      calculate_early_precision_rate env recon (true_adj_matrix d) w5 = Inr (epr, w6) \<and>
                     (construct_adjacency_matrix env (expr_data d) (THRESHOLD g) w6 = Inl e \<or>
                     (\<exists>pcc w7.
                        construct_adjacency_matrix env (expr_data d) (THRESHOLD g) w6 = Inr (pcc, w7) \<and>
                        calculate_whole_network_overlap env recon (true_adj_matrix d) pcc w7
                          = Inl e)))))))))))))))))) \<and>
   (main env g pick w = Inr (fin, w') \<longrightarrow>
     (\<exists>w0 w1 w2 w3 w4 w5 w6 w7 model0.
        select_params env g pick w = Inr ((study_trials fin, best_params fin), w0) \<and>
        main_data env g w0 = Inr (prepared fin, w1) \<and>
        model_args fin = main_model_args g (prepared fin) (best_params fin) \<and>
        GAT_VGAE env (model_args fin) w1 = Inr (model0, w2) \<and>
        train_and_evaluate env model0 (edge_index (prepared fin)) (expr_data (prepared fin))
          (adj_matrix (prepared fin)) (true_adj_matrix (prepared fin)) (NUM_EPOCHS g)
          (learning_rate (best_params fin)) (best_params fin) w2 = Inr (model fin, w3) \<and>
        model_call env (model fin) (edge_index (prepared fin)) (expr_data (prepared fin)) w3
          = Inr (reconstructed_adjacency fin, w4) \<and>
        evaluate_model env (true_adj_matrix (prepared fin)) (reconstructed_adjacency fin) w4
          = Inr (evaluation fin, w5) \<and>
        final_accuracy (true_adj_matrix (prepared fin)) (reconstructed_adjacency fin)
          = Inr (accuracy fin) \<and>
        calculate_early_precision_rate env (reconstructed_adjacency fin)
          (true_adj_matrix (prepared fin)) w5 = Inr (epr_final fin, w6) \<and>
        construct_adjacency_matrix env (expr_data (prepared fin)) (THRESHOLD g) w6
          = Inr (pcc_matrix fin, w7) \<and>
        calculate_whole_network_overlap env (reconstructed_adjacency fin)
          (true_adj_matrix (prepared fin)) (pcc_matrix fin) w7
          = Inr ((pcc_overlap fin, pred_overlap fin), w')))"
proof (intro conjI impI)
  show "run_trials obj (\<lambda>e. False) pick grid 0 unvisited finished w \<noteq> Inl e"
    by simp
next
  assume run: "main env g pick w = Inr (fin, w')"
  from run obtain w0 w1 w2 w3 w4 w5 w6 w7 model0 where
    f1: "select_params env g pick w = Inr ((study_trials fin, best_params fin), w0)" and
    f2: "main_data env g w0 = Inr (prepared fin, w1)" and
    f3: "model_args fin = main_model_args g (prepared fin) (best_params fin)" and
    f4: "GAT_VGAE env (model_args fin) w1 = Inr (model0, w2)" and
    f5: "train_and_evaluate env model0 (edge_index (prepared fin)) (expr_data (prepared fin))
          (adj_matrix (prepared fin)) (true_adj_matrix (prepared fin)) (NUM_EPOCHS g)
          (learning_rate (best_params fin)) (best_params fin) w2 = Inr (model fin, w3)" and
    f6: "model_call env (model fin) (edge_index (prepared fin)) (expr_data (prepared fin)) w3
          = Inr (reconstructed_adjacency fin, w4)" and
    f7: "evaluate_model env (true_adj_matrix (prepared fin)) (reconstructed_adjacency fin) w4
          = Inr (evaluation fin, w5)" and
    f8: "final_accuracy (true_adj_matrix (prepared fin)) (reconstructed_adjacency fin)
          = Inr (accuracy fin)" and
    f9: "calculate_early_precision_rate env (reconstructed_adjacency fin)
          (true_adj_matrix (prepared fin)) w5 = Inr (epr_final fin, w6)" and
    f10: "construct_adjacency_matrix env (expr_data (prepared fin)) (THRESHOLD g) w6
          = Inr (pcc_matrix fin, w7)" and
    f11: "calculate_whole_network_overlap env (reconstructed_adjacency fin)
          (true_adj_matrix (prepared fin)) (pcc_matrix fin) w7
          = Inr ((pcc_overlap fin, pred_overlap fin), w')"
    by (rule main_InrE)
  show "\<exists>w0 w1 w2 w3 w4 w5 w6 w7 model0.
        select_params env g pick w = Inr ((study_trials fin, best_params fin), w0) \<and>
        main_data env g w0 = Inr (prepared fin, w1) \<and>
        model_args fin = main_model_args g (prepared fin) (best_params fin) \<and>
        GAT_VGAE env (model_args fin) w1 = Inr (model0, w2) \<and>
        train_and_evaluate env model0 (edge_index (prepared fin)) (expr_data (prepared fin))
          (adj_matrix (prepared fin)) (true_adj_matrix (prepared fin)) (NUM_EPOCHS g)
          (learning_rate (best_params fin)) (best_params fin) w2 = Inr (model fin, w3) \<and>
        model_call env (model fin) (edge_index (prepared fin)) (expr_data (prepared fin)) w3
          = Inr (reconstructed_adjacency fin, w4) \<and>
        evaluate_model env (true_adj_matrix (prepared fin)) (reconstructed_adjacency fin) w4
          = Inr (evaluation fin, w5) \<and>
        final_accuracy (true_adj_matrix (prepared fin)) (reconstructed_adjacency fin)
          = Inr (accuracy fin) \<and>
        calculate_early_precision_rate env (reconstructed_adjacency fin)
          (true_adj_matrix (prepared fin)) w5 = Inr (epr_final fin, w6) \<and>
        construct_adjacency_matrix env (expr_data (prepared fin)) (THRESHOLD g) w6
          = Inr (pcc_matrix fin, w7) \<and>
        calculate_whole_network_overlap env (reconstructed_adjacency fin)
          (true_adj_matrix (prepared fin)) (pcc_matrix fin) w7
          = Inr ((pcc_overlap fin, pred_overlap fin), w')"
    by (intro exI conjI) (rule f1, rule f2, rule f3, rule f4, rule f5, rule f6, rule f7, rule f8,
        rule f9, rule f10, rule f11)
qed (rule objective_data_Inl objective_Inl run_trials_Inl select_params_Inl main_data_Inl main_Inl)+

text \<open>
  With a training that fails, the first trial, the search and both kinds of run end in the
  training error; with an evaluation that fails, the trial and the final run end in that
  error and no metrics are returned; and the run in which nothing fails reports the
  metrics of \<^verbatim>\<open>evaluate_model\<close>.
\<close>

theorem errors_propagate_witness:
  "objective failing_env demo_globals \<lparr>number = 0, grid_point = all_grids search_space ! 0\<rparr> 0
     = Inl TrainingError \<and>
   study_optimize (objective failing_env demo_globals) 256 (\<lambda>e. False) (\<lambda>k u. 0) search_space 0
     = Inl TrainingError \<and>
   main failing_env demo_globals (\<lambda>k u. 0) 0 = Inl TrainingError \<and>
   main failing_env demo_fixed (\<lambda>k u. 0) 0 = Inl TrainingError \<and>
   objective failing_eval_env demo_globals \<lparr>number = 0, grid_point = all_grids search_space ! 0\<rparr> 0
     = Inl DataError \<and>
   main failing_eval_env demo_fixed (\<lambda>k u. 0) 0 = Inl DataError \<and>
   main demo_env demo_fixed (\<lambda>k u. 0) 0 = Inr (demo_final, 0) \<and>
   (\<exists>wa wb. evaluate_model demo_env (true_adj_matrix (prepared demo_final))
               (reconstructed_adjacency demo_final) wa = Inr (evaluation demo_final, wb))"
proof -
  let ?t = "\<lparr>number = 0, grid_point = all_grids search_space ! 0\<rparr>"
  let ?fixed = "\<lparr>num_neurons = 32, embedding_size = 16, num_heads = 4, learning_rate = 0.001\<rparr>"
  note objective_rule = errors_propagate [THEN conjunct2, THEN conjunct1, THEN iffD2]
  note search_rule = errors_propagate [THEN conjunct2, THEN conjunct2, THEN conjunct2,
      THEN conjunct1, THEN iffD2]
  note select_rule = errors_propagate [THEN conjunct2, THEN conjunct2, THEN conjunct2,
      THEN conjunct2, THEN conjunct1, THEN iffD2]
  note main_rule = errors_propagate [THEN conjunct2, THEN conjunct2, THEN conjunct2,
      THEN conjunct2, THEN conjunct2, THEN conjunct2, THEN conjunct1, THEN iffD2]
  note returned_rule = errors_propagate [THEN conjunct2, THEN conjunct2, THEN conjunct2,
      THEN conjunct2, THEN conjunct2, THEN conjunct2, THEN conjunct2, rule_format]
  have g0: "all_grids search_space ! 0
      = \<lparr>num_neurons = 16, embedding_size = 8, num_heads = 2, learning_rate = 0.001\<rparr>"
    by (simp add: all_grids_def search_space_def)
  have ch: "in_choices (all_grids search_space ! 0)" by (simp add: g0 in_choices_def)
  have od: "objective_data env' demo_globals 0 = Inr (demo_data, 0)"
    if "env' = failing_env \<or> env' = failing_eval_env" for env'
    using that
    by (auto simp: objective_data_def failing_env_def failing_eval_env_def demo_env_def demo_data_def
        bind_def return_def np_where_eq1_def)
  have md: "main_data env' demo_fixed 0 = Inr (demo_data, 0)"
    if "env' = failing_env \<or> env' = failing_eval_env" for env'
    using that
    by (auto simp: main_data_def failing_env_def failing_eval_env_def demo_env_def demo_data_def
        bind_def return_def np_where_eq1_def)
  have sel: "select_params env' demo_fixed (\<lambda>k u. 0) 0 = Inr ((None, ?fixed), 0)" for env'
    by (simp add: select_params_def demo_fixed_def demo_globals_def return_def)
  have tune: "TUNE_HYPERPARAMETERS demo_globals" by (simp add: demo_globals_def)
  have a: "objective failing_env demo_globals ?t 0 = Inl TrainingError"
    by (rule objective_rule) (simp add: ch od, simp add: failing_env_def demo_env_def return_def)
  have "run_trials (objective failing_env demo_globals) (\<lambda>e. False) (\<lambda>k u. 0) (all_grids search_space)
          (Suc 255) [0..<length (all_grids search_space)] [] 0 = Inl TrainingError"
    by (rule search_rule) (simp add: length_all_grids a)
  then have b: "study_optimize (objective failing_env demo_globals) 256 (\<lambda>e. False) (\<lambda>k u. 0)
                  search_space 0 = Inl TrainingError"
    by (simp add: study_optimize_def)
  have "select_params failing_env demo_globals (\<lambda>k u. 0) 0 = Inl TrainingError"
    by (rule select_rule) (simp add: tune b)
  then have c: "main failing_env demo_globals (\<lambda>k u. 0) 0 = Inl TrainingError"
    by (intro main_rule disjI1)
  have d: "main failing_env demo_fixed (\<lambda>k u. 0) 0 = Inl TrainingError"
    by (rule main_rule) (simp add: sel md, simp add: failing_env_def demo_env_def return_def)
  have e: "objective failing_eval_env demo_globals ?t 0 = Inl DataError"
    by (rule objective_rule) (simp add: ch od, simp add: failing_eval_env_def demo_env_def return_def)
  have f: "main failing_eval_env demo_fixed (\<lambda>k u. 0) 0 = Inl DataError"
    by (rule main_rule) (simp add: sel md, simp add: failing_eval_env_def demo_env_def return_def)
  have run: "main demo_env demo_fixed (\<lambda>k u. 0) 0 = Inr (demo_final, 0)"
    by (rule demo_fixed_main)
  from returned_rule [OF run] obtain wa wb where
    "evaluate_model demo_env (true_adj_matrix (prepared demo_final))
       (reconstructed_adjacency demo_final) wa = Inr (evaluation demo_final, wb)"
    by (elim exE conjE)
  then have h: "\<exists>wa wb. evaluate_model demo_env (true_adj_matrix (prepared demo_final))
               (reconstructed_adjacency demo_final) wa = Inr (evaluation demo_final, wb)"
    by blast
  from a b c d e f run h show ?thesis by (intro conjI)
qed

text \<open>
  C7. For \<open>numNodes = n\<close> the forward pass returns an \<open>n \<times> n\<close> matrix with every entry in
  \<open>[0, 1]\<close>, whatever the attention encoder, the parameters, the noise and the inputs.
\<close>

theorem forward_shape_and_range:
  assumes "i < numNodes \<theta>" and "j < numNodes \<theta>"
  shows "length (forward enc \<theta> training noise edgeIndex features) = numNodes \<theta> \<and>
         length (forward enc \<theta> training noise edgeIndex features ! i) = numNodes \<theta> \<and>
         0 \<le> forward enc \<theta> training noise edgeIndex features ! i ! j \<and>
         forward enc \<theta> training noise edgeIndex features ! i ! j \<le> 1"
  using assms sigmoid_range
  by (auto simp: forward_def decoder_def Let_def less_imp_le)

theorem forward_shape_and_range_witness:
  "(0 :: nat) < 2 \<and> (1 :: nat) < 2 \<and>
   length (forward (\<lambda>a x es v. x ! v)
      \<lparr>numNodes = 2, attention_params = (), mean_weight = [[1, 0], [0, 1]], mean_bias = [0, 0],
       logvar_weight = [[0, 0], [0, 0]], logvar_bias = [0, 0]\<rparr>
      False (\<lambda>v. [0, 0]) [(0, 1), (1, 0)] [[1, 2], [3, 4]]) = 2 \<and>
   forward (\<lambda>a x es v. x ! v)
      \<lparr>numNodes = 2, attention_params = (), mean_weight = [[1, 0], [0, 1]], mean_bias = [0, 0],
       logvar_weight = [[0, 0], [0, 0]], logvar_bias = [0, 0]\<rparr>
      False (\<lambda>v. [0, 0]) [(0, 1), (1, 0)] [[1, 2], [3, 4]] ! 0 ! 1 = sigmoid 11 \<and>
   0 \<le> sigmoid 11 \<and> sigmoid 11 \<le> 1"
proof -
  let ?th = "\<lparr>numNodes = 2, attention_params = (), mean_weight = [[1, 0], [0, 1]], mean_bias = [0, 0],
       logvar_weight = [[0, 0], [0, 0]], logvar_bias = [0, 0]\<rparr> :: unit model_params"
  let ?out = "forward (\<lambda>a x es v. x ! v) ?th False (\<lambda>v. [0, 0]) [(0, 1), (1, 0)] [[1, 2], [3, 4]]"
  have v: "?out ! 0 ! 1 = sigmoid 11"
    by (simp add: forward_def decoder_def linear_def dot_def Let_def upt_rec [of 0] upt_rec [of 1])
  have i: "0 < numNodes ?th" and j: "1 < numNodes ?th" by simp_all
  from forward_shape_and_range [OF i j, of "\<lambda>a x es v. x ! v" False "\<lambda>v. [0, 0]" "[(0, 1), (1, 0)]" "[[1, 2], [3, 4]]"]
  have "length ?out = 2" and "0 \<le> ?out ! 0 ! 1" and "?out ! 0 ! 1 \<le> 1" by simp_all
  with v show ?thesis by simp
qed

text \<open>
  C8. For every expression matrix and every threshold in \<open>[0, 1]\<close>, constructing the
  adjacency matrix with noise factor 0 gives exactly the matrix constructed without noise
  (or the same error), whatever the random source draws.
\<close>

theorem zero_noise_is_plain:
  assumes "0 \<le> t" and "t \<le> 1"
  shows "constructAdjacencyWithNoise draws scale expr t 0 = constructAdjacency expr t"
  using assms
  by (cases "constructAdjacency expr t") (simp_all add: constructAdjacencyWithNoise_def perturb_zero)

theorem zero_noise_is_plain_witness:
  "(0 :: real) \<le> 1 / 2 \<and> (1 / 2 :: real) \<le> 1 \<and>
   constructAdjacencyWithNoise (\<lambda>i j. 0) 1
     \<lparr>expr_shape = (3, 2), expr_rows = [[1, 2], [2, 4], [3, 6]]\<rparr> (1 / 2) 0 = Inr [[0, 1], [1, 0]]"
  using zero_noise_is_plain [of "1 / 2" "\<lambda>i j. 0" 1
      "\<lparr>expr_shape = (3, 2), expr_rows = [[1, 2], [2, 4], [3, 6]]\<rparr>"] demo_adj
  by simp

text \<open>
  C9. The early precision rate is 0 whenever the cutoff
  \<open>k = floor(kFraction \<times> numGroundTruthEdges)\<close> is 0, in particular when \<open>kFraction\<close> is 0
  or there is no ground-truth edge, and it never ends in a division by zero.
\<close>

theorem epr_zero_cutoff:
  "(topK kFraction truth = 0 \<longrightarrow> earlyPrecisionRate kFraction reconstructed truth = Inr 0) \<and>
   (kFraction = 0 \<longrightarrow> earlyPrecisionRate kFraction reconstructed truth = Inr 0) \<and>
   (numGroundTruthEdges truth = 0 \<longrightarrow> earlyPrecisionRate kFraction reconstructed truth = Inr 0) \<and>
   earlyPrecisionRate kFraction reconstructed truth \<noteq> Inl ZeroDivisionError"
  by (simp add: earlyPrecisionRate_def topK_def divide_checked_def Let_def)

theorem epr_zero_cutoff_witness:
  "topK (1 / 10) [[0, 1, 1], [1, 0, 0], [1, 0, 0]] = 0 \<and>
   earlyPrecisionRate (1 / 10) [[1 / 2, 9 / 10, 1 / 10], [9 / 10, 1 / 2, 4 / 5], [1 / 10, 4 / 5, 1 / 2]]
     [[0, 1, 1], [1, 0, 0], [1, 0, 0]] = Inr 0 \<and>
   earlyPrecisionRate 0 [[1 / 2, 9 / 10], [9 / 10, 1 / 2]] [[0, 1], [1, 0]] = Inr 0 \<and>
   numGroundTruthEdges [[0, 0], [0, 0]] = 0 \<and>
   earlyPrecisionRate (1 / 2) [[1 / 2, 9 / 10], [9 / 10, 1 / 2]] [[0, 0], [0, 0]] = Inr 0"
proof -
  have k: "topK (1 / 10) [[0, 1, 1], [1, 0, 0], [1, 0, 0]] = 0"
    by (simp add: topK_def numGroundTruthEdges_def enumerate_eq_zip upt_rec [of 0] upt_rec [of 1]
        upt_rec [of 2])
  have n: "numGroundTruthEdges [[0, 0], [0, 0]] = 0"
    by (simp add: numGroundTruthEdges_def enumerate_eq_zip upt_rec [of 0] upt_rec [of 1])
  from epr_zero_cutoff [of "1 / 10" "[[0, 1, 1], [1, 0, 0], [1, 0, 0]]"
      "[[1 / 2, 9 / 10, 1 / 10], [9 / 10, 1 / 2, 4 / 5], [1 / 10, 4 / 5, 1 / 2]]"] k
  have a: "earlyPrecisionRate (1 / 10) [[1 / 2, 9 / 10, 1 / 10], [9 / 10, 1 / 2, 4 / 5], [1 / 10, 4 / 5, 1 / 2]]
     [[0, 1, 1], [1, 0, 0], [1, 0, 0]] = Inr 0" by blast
  from epr_zero_cutoff [of 0 "[[0, 1], [1, 0]]" "[[1 / 2, 9 / 10], [9 / 10, 1 / 2]]"]
  have b: "earlyPrecisionRate 0 [[1 / 2, 9 / 10], [9 / 10, 1 / 2]] [[0, 1], [1, 0]] = Inr 0" by blast
  from epr_zero_cutoff [of "1 / 2" "[[0, 0], [0, 0]]" "[[1 / 2, 9 / 10], [9 / 10, 1 / 2]]"] n
  have c: "earlyPrecisionRate (1 / 2) [[1 / 2, 9 / 10], [9 / 10, 1 / 2]] [[0, 0], [0, 0]] = Inr 0" by blast
  from k a b n c show ?thesis by blast
qed



end
